theory Spec2Isabelle
  imports Complex_Main
begin

section \<open>JavaScript values\<close>

text \<open>
  The editor (\<^verbatim>\<open>src/app.js\<close>) is dynamically typed: a loaded file is whatever
  \<^verbatim>\<open>JSON.parse\<close> returned, and the sanitizer reads fields of it without knowing their
  types. The embedding therefore works on an explicit type of JavaScript values.

  Numbers are the IEEE values \<open>NaN\<close>, \<open>-Infinity\<close>, \<open>+Infinity\<close> and the finite
  numbers. A finite number is a rational; the result of an addition or a subtraction is
  rounded to a double by the runtime (see \<open>numPlus\<close>); the sign of zero is not
  modelled. Strings are lists of characters, one
  \<^typ>\<open>char\<close> per code unit. An object is its table of own properties, an association
  list looked up with \<^const>\<open>map_of\<close>; a parsed JSON object never holds a function.
\<close>

datatype jsnum = NaN | NInf | Fin rat | PInf

datatype jsval =
    JUndefined
  | JNull
  | JBool bool
  | JNum jsnum
  | JStr string
  | JArr "jsval list"
  | JObj "(string \<times> jsval) list"

type_synonym jsobj = "(string \<times> jsval) list"

datatype error = TypeError | InvalidFormat

text \<open>
  The conversions between numbers and their text (\<^verbatim>\<open>StringToNumber\<close> and
  \<^verbatim>\<open>Number::toString\<close> of ECMAScript) and the rounding of an exact result to the
  nearest double (or to an infinity) belong to the JavaScript runtime, not to the
  program. They are parameters of the model, so every theorem below holds whatever they
  compute.
\<close>

record runtime =
  stringToNumber :: "string \<Rightarrow> jsnum"
  numberToString :: "jsnum \<Rightarrow> string"
  roundNumber :: "rat \<Rightarrow> jsnum"

subsection \<open>Arithmetic on numbers\<close>

fun num_le :: "jsnum \<Rightarrow> jsnum \<Rightarrow> bool" where
  "num_le NInf _ = True"
| "num_le _ PInf = True"
| "num_le (Fin a) (Fin b) = (a \<le> b)"
| "num_le _ _ = False"

text \<open>\<^verbatim>\<open>Math.min\<close> and \<^verbatim>\<open>Math.max\<close> of two numbers: \<open>NaN\<close> if either is.\<close>

definition mathMin :: "jsnum \<Rightarrow> jsnum \<Rightarrow> jsnum" where
  "mathMin a b = (if a = NaN \<or> b = NaN then NaN else if num_le a b then a else b)"

definition mathMax :: "jsnum \<Rightarrow> jsnum \<Rightarrow> jsnum" where
  "mathMax a b = (if a = NaN \<or> b = NaN then NaN else if num_le a b then b else a)"

fun numAdd :: "jsnum \<Rightarrow> jsnum \<Rightarrow> jsnum" where
  "numAdd NaN _ = NaN"
| "numAdd _ NaN = NaN"
| "numAdd PInf NInf = NaN"
| "numAdd NInf PInf = NaN"
| "numAdd PInf _ = PInf"
| "numAdd _ PInf = PInf"
| "numAdd NInf _ = NInf"
| "numAdd _ NInf = NInf"
| "numAdd (Fin a) (Fin b) = Fin (a + b)"

fun numNeg :: "jsnum \<Rightarrow> jsnum" where
  "numNeg NaN = NaN"
| "numNeg NInf = PInf"
| "numNeg PInf = NInf"
| "numNeg (Fin a) = Fin (- a)"

definition numSub :: "jsnum \<Rightarrow> jsnum \<Rightarrow> jsnum" where
  "numSub a b = numAdd a (numNeg b)"

text \<open>
  \<open>numAdd\<close> and \<open>numSub\<close> are the exact sum and difference. \<^verbatim>\<open>a + b\<close> and
  \<^verbatim>\<open>a - b\<close> on numbers are \<open>numPlus\<close> and \<open>numMinus\<close>: a finite exact result is
  rounded by the runtime, so that \<open>2^53 + 1\<close> is \<open>2^53\<close> in a runtime that rounds as
  ECMAScript does.
\<close>

definition rounded :: "runtime \<Rightarrow> jsnum \<Rightarrow> jsnum" where
  "rounded rt n = (case n of Fin q \<Rightarrow> roundNumber rt q | _ \<Rightarrow> n)"

definition numPlus :: "runtime \<Rightarrow> jsnum \<Rightarrow> jsnum \<Rightarrow> jsnum" where
  "numPlus rt a b = rounded rt (numAdd a b)"

definition numMinus :: "runtime \<Rightarrow> jsnum \<Rightarrow> jsnum \<Rightarrow> jsnum" where
  "numMinus rt a b = rounded rt (numSub a b)"

subsection \<open>Truthiness, nullish values, property reads\<close>

fun truthy :: "jsval \<Rightarrow> bool" where
  "truthy JUndefined = False"
| "truthy JNull = False"
| "truthy (JBool b) = b"
| "truthy (JNum n) = (n \<noteq> NaN \<and> n \<noteq> Fin 0)"
| "truthy (JStr s) = (s \<noteq> [])"
| "truthy (JArr _) = True"
| "truthy (JObj _) = True"

text \<open>\<^verbatim>\<open>a || b\<close> and \<^verbatim>\<open>a ?? b\<close>, for a right operand that cannot fail.\<close>

definition jsOr :: "jsval \<Rightarrow> jsval \<Rightarrow> jsval" where
  "jsOr a b = (if truthy a then a else b)"

definition nullish :: "jsval \<Rightarrow> bool" where
  "nullish v = (v = JUndefined \<or> v = JNull)"

definition orElse :: "jsval \<Rightarrow> jsval \<Rightarrow> jsval" where
  "orElse a b = (if nullish a then b else a)"

text \<open>
  \<^verbatim>\<open>v.k\<close> for the property names the program reads (\<open>id\<close>, \<open>bg\<close>, \<open>elements\<close>,
  \<open>panels\<close>, \<open>layout\<close>, \<open>type\<close>, \<open>x\<close>, ...): none of them is defined on a built-in
  prototype, so a primitive or an array has none of them, and an object has it exactly
  when it is an own property. Reading a property of \<open>undefined\<close> or \<open>null\<close> throws.
\<close>

definition field :: "jsobj \<Rightarrow> string \<Rightarrow> jsval" where
  "field kvs k = (case map_of kvs k of Some v \<Rightarrow> v | None \<Rightarrow> JUndefined)"

fun getProp :: "jsval \<Rightarrow> string \<Rightarrow> error + jsval" where
  "getProp JUndefined k = Inl TypeError"
| "getProp JNull k = Inl TypeError"
| "getProp (JObj kvs) k = Inr (field kvs k)"
| "getProp _ k = Inr JUndefined"

text \<open>
  An object literal \<^verbatim>\<open>{...a, k: v}\<close> and a spread \<^verbatim>\<open>{...a, ...b}\<close>: a key that
  \<open>a\<close> has keeps its place and takes the new value, a new key goes to the end.
\<close>

fun setField :: "string \<Rightarrow> jsval \<Rightarrow> jsobj \<Rightarrow> jsobj" where
  "setField k v [] = [(k, v)]"
| "setField k v ((k', v') # kvs) =
     (if k' = k then (k, v) # kvs else (k', v') # setField k v kvs)"

fun spread :: "jsobj \<Rightarrow> jsobj \<Rightarrow> jsobj" where
  "spread a [] = a"
| "spread a ((k, v) # b) = spread (setField k v a) b"

subsection \<open>Conversions\<close>

text \<open>
  \<^verbatim>\<open>ToString\<close>. An array is joined with commas, \<open>null\<close> and \<open>undefined\<close> entries
  giving the empty string. A parsed object inherits \<^verbatim>\<open>Object.prototype.toString\<close>
  and prints as \<^verbatim>\<open>[object Object]\<close>, unless it has an own property \<open>toString\<close>:
  that is not callable, neither is what \<open>valueOf\<close> gives a primitive, and the conversion
  throws a TypeError.
\<close>

fun toStr :: "runtime \<Rightarrow> jsval \<Rightarrow> error + string"
  and joinStr :: "runtime \<Rightarrow> jsval list \<Rightarrow> error + string" where
  "toStr rt JUndefined = Inr ''undefined''"
| "toStr rt JNull = Inr ''null''"
| "toStr rt (JBool b) = Inr (if b then ''true'' else ''false'')"
| "toStr rt (JNum n) = Inr (numberToString rt n)"
| "toStr rt (JStr s) = Inr s"
| "toStr rt (JArr xs) = joinStr rt xs"
| "toStr rt (JObj kvs) =
     (if ''toString'' \<in> fst ` set kvs then Inl TypeError else Inr ''[object Object]'')"
| "joinStr rt [] = Inr ''''"
| "joinStr rt (x # xs) =
     (case (if x = JUndefined \<or> x = JNull then Inr '''' else toStr rt x) of
        Inl e \<Rightarrow> Inl e
      | Inr s \<Rightarrow>
          (if xs = [] then Inr s
           else (case joinStr rt xs of Inl e \<Rightarrow> Inl e | Inr t \<Rightarrow> Inr (s @ '','' @ t))))"

text \<open>\<^verbatim>\<open>ToNumber\<close>: an array or an object is converted to its string first.\<close>

fun toNumber :: "runtime \<Rightarrow> jsval \<Rightarrow> error + jsnum" where
  "toNumber rt JUndefined = Inr NaN"
| "toNumber rt JNull = Inr (Fin 0)"
| "toNumber rt (JBool b) = Inr (Fin (if b then 1 else 0))"
| "toNumber rt (JNum n) = Inr n"
| "toNumber rt (JStr s) = Inr (stringToNumber rt s)"
| "toNumber rt v =
     (case toStr rt v of Inl e \<Rightarrow> Inl e | Inr s \<Rightarrow> Inr (stringToNumber rt s))"

text \<open>
  The binary operators with a number on the right, as the program uses them.
  \<^verbatim>\<open>v + n\<close> concatenates when \<open>v\<close> is a string or converts to one (an array, an
  object) and adds numbers otherwise; \<^verbatim>\<open>v - n\<close> always converts to a number.
\<close>

fun jsAdd :: "runtime \<Rightarrow> jsval \<Rightarrow> jsnum \<Rightarrow> error + jsval" where
  "jsAdd rt (JStr s) n = Inr (JStr (s @ numberToString rt n))"
| "jsAdd rt (JArr xs) n =
     (case toStr rt (JArr xs) of Inl e \<Rightarrow> Inl e
      | Inr s \<Rightarrow> Inr (JStr (s @ numberToString rt n)))"
| "jsAdd rt (JObj kvs) n =
     (case toStr rt (JObj kvs) of Inl e \<Rightarrow> Inl e
      | Inr s \<Rightarrow> Inr (JStr (s @ numberToString rt n)))"
| "jsAdd rt v n =
     (case toNumber rt v of Inl e \<Rightarrow> Inl e | Inr m \<Rightarrow> Inr (JNum (numPlus rt m n)))"

definition jsSub :: "runtime \<Rightarrow> jsval \<Rightarrow> jsnum \<Rightarrow> error + jsnum" where
  "jsSub rt v n = (case toNumber rt v of Inl e \<Rightarrow> Inl e | Inr m \<Rightarrow> Inr (numMinus rt m n))"

section \<open>Utilities and presets\<close>

text \<open>\<^verbatim>\<open>const clamp = (v, a, b) => Math.max(a, Math.min(b, v))\<close>; the bounds are
  numeric literals at every call.\<close>

definition clamp :: "runtime \<Rightarrow> jsval \<Rightarrow> jsnum \<Rightarrow> jsnum \<Rightarrow> error + jsnum" where
  "clamp rt v a b =
     (case toNumber rt v of Inl e \<Rightarrow> Inl e | Inr n \<Rightarrow> Inr (mathMax a (mathMin b n)))"

definition bindE :: "error + 'a \<Rightarrow> ('a \<Rightarrow> error + 'b) \<Rightarrow> error + 'b" where
  "bindE m f = (case m of Inl e \<Rightarrow> Inl e | Inr x \<Rightarrow> f x)"

abbreviation num :: "rat \<Rightarrow> jsval" where
  "num q \<equiv> JNum (Fin q)"

text \<open>
  \<^verbatim>\<open>uid()\<close> is \<^verbatim>\<open>Math.random().toString(36).slice(2, 9)\<close>. The results of the
  successive calls are a sequence \<open>ids\<close> that the model takes as given; a counter
  says how many have been drawn.
\<close>

type_synonym uids = "nat \<Rightarrow> string"

record preset =
  name :: string
  grid :: string
  preset_panels :: nat
  vertical :: bool

definition LAYOUTS :: "(string \<times> preset) list" where
  "LAYOUTS =
    [(''1'', \<lparr>name = ''1 Panel'', grid = ''grid-cols-1'', preset_panels = 1, vertical = False\<rparr>),
     (''2h'', \<lparr>name = ''2 Panels (Horizontal)'', grid = ''md:grid-cols-2'', preset_panels = 2,
        vertical = False\<rparr>),
     (''2v'', \<lparr>name = ''2 Panels (Vertical)'', grid = ''grid-cols-1'', preset_panels = 2,
        vertical = True\<rparr>),
     (''4'', \<lparr>name = ''4 Panels (2x2)'', grid = ''md:grid-cols-2'', preset_panels = 4,
        vertical = False\<rparr>)]"

text \<open>
  \<open>LAYOUTS\<close> is an object literal, so its prototype is \<^verbatim>\<open>Object.prototype\<close>: the
  \<^verbatim>\<open>in\<close> operator and a property read also find the names defined there.
\<close>

definition objectPrototypeKeys :: "string list" where
  "objectPrototypeKeys =
    [''constructor'', ''__defineGetter__'', ''__defineSetter__'', ''hasOwnProperty'',
     ''__lookupGetter__'', ''__lookupSetter__'', ''isPrototypeOf'', ''propertyIsEnumerable'',
     ''toString'', ''valueOf'', ''__proto__'', ''toLocaleString'']"

text \<open>\<^verbatim>\<open>v in LAYOUTS\<close>: \<open>v\<close> is converted to a property key first.\<close>

definition inLAYOUTS :: "runtime \<Rightarrow> jsval \<Rightarrow> error + bool" where
  "inLAYOUTS rt v =
     bindE (toStr rt v) (\<lambda>key.
       Inr (key \<in> set (map fst LAYOUTS) \<or> key \<in> set objectPrototypeKeys))"

section \<open>The document\<close>

text \<open>
  The page and its panels are built by the program with a fixed set of fields; an
  element is an object whose fields are patched by name, so it stays a property table.
\<close>

record panel =
  panel_id :: jsval
  bg :: jsval
  elements :: "jsobj list"

record page =
  layout :: jsval
  panels :: "panel list"

definition emptyPanel :: "string \<Rightarrow> panel" where
  "emptyPanel u = \<lparr>panel_id = JStr u, bg = JStr ''#ffffff'', elements = []\<rparr>"

definition DEFAULT_PAGE :: "uids \<Rightarrow> nat \<Rightarrow> page \<times> nat" where
  "DEFAULT_PAGE ids k =
     (\<lparr>layout = JStr ''4'', panels = map (\<lambda>i. emptyPanel (ids (k + i))) [0..<4]\<rparr>, k + 4)"

definition defaultText :: "string \<Rightarrow> string \<Rightarrow> jsobj" where
  "defaultText u subtype =
    [(''id'', JStr u),
     (''type'', JStr ''text''),
     (''subtype'', JStr subtype),
     (''text'', JStr (if subtype = ''sfx'' then ''BAM!''
                      else if subtype = ''caption'' then ''Caption...'' else ''Speech...'')),
     (''x'', num 24), (''y'', num 24), (''w'', num 200), (''h'', num 80),
     (''fontSize'', num (if subtype = ''sfx'' then 36 else 20)),
     (''color'', JStr (if subtype = ''caption'' then ''#111827'' else ''#111827'')),
     (''bg'', JStr (if subtype = ''caption'' then ''#fef3c7'' else ''#ffffffcc'')),
     (''rotate'', num 0),
     (''z'', num 1),
     (''align'', JStr ''left''),
     (''radius'', num (if subtype = ''speech'' then 16 else 8)),
     (''weight'', num (if subtype = ''sfx'' then 800 else 600))]"

text \<open>
  \<open>natural\<close> is \<open>None\<close> for \<^verbatim>\<open>null\<close> (the size probe failed) and the object
  \<^verbatim>\<open>{ width, height }\<close> otherwise; \<^verbatim>\<open>natural?.width || 300\<close> is what
  \<open>naturalOr\<close> computes. \<^verbatim>\<open>Math.min\<close> converts its argument to a number, which
  can throw.
\<close>

definition naturalOr :: "jsobj option \<Rightarrow> string \<Rightarrow> rat \<Rightarrow> jsval" where
  "naturalOr natural k d =
     jsOr (case natural of None \<Rightarrow> JUndefined | Some n \<Rightarrow> field n k) (num d)"

definition defaultImage :: "runtime \<Rightarrow> string \<Rightarrow> jsval \<Rightarrow> jsobj option \<Rightarrow> error + jsobj" where
  "defaultImage rt u src natural =
     bindE (toNumber rt (naturalOr natural ''width'' 300)) (\<lambda>nw.
     bindE (toNumber rt (naturalOr natural ''height'' 220)) (\<lambda>nh.
       Inr [(''id'', JStr u),
            (''type'', JStr ''image''),
            (''src'', src),
            (''x'', num 24), (''y'', num 24),
            (''w'', JNum (mathMin (Fin 300) nw)),
            (''h'', JNum (mathMin (Fin 220) nh)),
            (''z'', num 0),
            (''rotate'', num 0)]))"

section \<open>The sanitizer\<close>

text \<open>\<open>readProp el k\<close> is \<^verbatim>\<open>el.k\<close> once a first read of \<open>el\<close> has shown that it is
  neither \<open>null\<close> nor \<open>undefined\<close>.\<close>

definition readProp :: "jsval \<Rightarrow> string \<Rightarrow> jsval" where
  "readProp el k = (case getProp el k of Inl e \<Rightarrow> JUndefined | Inr v \<Rightarrow> v)"

text \<open>\<^verbatim>\<open>allowed.includes(v) ? v : d\<close> for a list of string literals.\<close>

definition oneOf :: "string list \<Rightarrow> jsval \<Rightarrow> string \<Rightarrow> string" where
  "oneOf allowed v d = (case v of JStr s \<Rightarrow> (if s \<in> set allowed then s else d) | _ \<Rightarrow> d)"

definition sanitizeImage :: "runtime \<Rightarrow> string \<Rightarrow> jsval \<Rightarrow> error + jsobj" where
  "sanitizeImage rt u el =
     bindE (defaultImage rt u (jsOr (readProp el ''src'') (JStr []))
              (Some [(''width'', readProp el ''w''), (''height'', readProp el ''h'')])) (\<lambda>d.
     bindE (clamp rt (orElse (readProp el ''x'') (num 24)) (Fin 0) (Fin 10000)) (\<lambda>x.
     bindE (clamp rt (orElse (readProp el ''y'') (num 24)) (Fin 0) (Fin 10000)) (\<lambda>y.
     bindE (clamp rt (orElse (readProp el ''w'') (num 300)) (Fin 10) (Fin 10000)) (\<lambda>w.
     bindE (clamp rt (orElse (readProp el ''h'') (num 220)) (Fin 10) (Fin 10000)) (\<lambda>h.
       Inr (spread d
         [(''x'', JNum x), (''y'', JNum y), (''w'', JNum w), (''h'', JNum h),
          (''z'', orElse (readProp el ''z'') (num 0)),
          (''rotate'', orElse (readProp el ''rotate'') (num 0))]))))))"

definition sanitizeText :: "runtime \<Rightarrow> string \<Rightarrow> jsval \<Rightarrow> error + jsobj" where
  "sanitizeText rt u el =
     (let subtype = oneOf [''speech'', ''caption'', ''sfx''] (readProp el ''subtype'') ''speech'' in
      bindE (toStr rt (orElse (readProp el ''text'') (JStr []))) (\<lambda>txt.
      bindE (clamp rt (orElse (readProp el ''x'') (num 24)) (Fin 0) (Fin 10000)) (\<lambda>x.
      bindE (clamp rt (orElse (readProp el ''y'') (num 24)) (Fin 0) (Fin 10000)) (\<lambda>y.
      bindE (clamp rt (orElse (readProp el ''w'') (num 200)) (Fin 40) (Fin 10000)) (\<lambda>w.
      bindE (clamp rt (orElse (readProp el ''h'') (num 80)) (Fin 30) (Fin 10000)) (\<lambda>h.
      bindE (clamp rt (orElse (readProp el ''fontSize'') (num 20)) (Fin 8) (Fin 160)) (\<lambda>fs.
      bindE (clamp rt (orElse (readProp el ''radius'') (num (if subtype = ''speech'' then 16 else 8)))
               (Fin 0) (Fin 64)) (\<lambda>r.
      bindE (clamp rt (orElse (readProp el ''weight'') (num (if subtype = ''sfx'' then 800 else 600)))
               (Fin 100) (Fin 900)) (\<lambda>wt.
        Inr (spread (defaultText u subtype)
          [(''text'', JStr (take 2000 txt)),
           (''x'', JNum x), (''y'', JNum y), (''w'', JNum w), (''h'', JNum h),
           (''fontSize'', JNum fs),
           (''color'', jsOr (readProp el ''color'') (JStr ''#111827'')),
           (''bg'', jsOr (readProp el ''bg'')
                     (JStr (if subtype = ''caption'' then ''#fef3c7'' else ''#ffffffcc''))),
           (''rotate'', orElse (readProp el ''rotate'') (num 0)),
           (''z'', orElse (readProp el ''z'') (num 1)),
           (''align'', JStr (oneOf [''left'', ''center'', ''right''] (readProp el ''align'') ''left'')),
           (''radius'', JNum r),
           (''weight'', JNum wt)]))))))))))"

text \<open>
  \<open>sanitizeElement\<close>; \<open>u\<close> is what its one call of \<^verbatim>\<open>uid()\<close> returns (inside
  \<open>defaultImage\<close> or \<open>defaultText\<close>). The first thing it does is read \<^verbatim>\<open>el.type\<close>.
  In the text branch the conversions that can throw are done in the order of the object
  literal, except that those of \<open>radius\<close> and \<open>weight\<close> come before the fields that
  cannot throw; which conversion throws first makes no difference to the result.
\<close>

definition sanitizeElement :: "runtime \<Rightarrow> string \<Rightarrow> jsval \<Rightarrow> error + jsobj" where
  "sanitizeElement rt u el =
     bindE (getProp el ''type'') (\<lambda>ty.
       if ty = JStr ''image'' then sanitizeImage rt u el else sanitizeText rt u el)"

section \<open>Loading a document\<close>

text \<open>\<^verbatim>\<open>p.elements.map(sanitizeElement)\<close>, one \<^verbatim>\<open>uid()\<close> per element, in order.\<close>

fun sanitizeElements :: "runtime \<Rightarrow> uids \<Rightarrow> nat \<Rightarrow> jsval list \<Rightarrow> error + (jsobj list \<times> nat)" where
  "sanitizeElements rt ids k [] = Inr ([], k)"
| "sanitizeElements rt ids k (el # els) =
     bindE (sanitizeElement rt (ids k) el) (\<lambda>e.
     bindE (sanitizeElements rt ids (Suc k) els) (\<lambda>(es, k'). Inr (e # es, k')))"

text \<open>
  The arrow function that \<open>loadJSON\<close> maps over \<^verbatim>\<open>doc.panels\<close>:
  \<^verbatim>\<open>p => ({ id: p.id || uid(), bg: p.bg || '#ffffff',
     elements: Array.isArray(p.elements) ? p.elements.map(sanitizeElement) : [] })\<close>.
  Reading \<^verbatim>\<open>p.id\<close> throws when \<open>p\<close> is \<open>null\<close>.
\<close>

definition loadPanel :: "runtime \<Rightarrow> uids \<Rightarrow> nat \<Rightarrow> jsval \<Rightarrow> error + (panel \<times> nat)" where
  "loadPanel rt ids k p =
     bindE (getProp p ''id'') (\<lambda>pid.
       let (i, k1) = (if truthy pid then (pid, k) else (JStr (ids k), Suc k));
           b = jsOr (readProp p ''bg'') (JStr ''#ffffff'')
       in (case readProp p ''elements'' of
             JArr els \<Rightarrow>
               bindE (sanitizeElements rt ids k1 els) (\<lambda>(es, k2).
                 Inr (\<lparr>panel_id = i, bg = b, elements = es\<rparr>, k2))
           | _ \<Rightarrow> Inr (\<lparr>panel_id = i, bg = b, elements = []\<rparr>, k1)))"

fun loadPanels :: "runtime \<Rightarrow> uids \<Rightarrow> nat \<Rightarrow> jsval list \<Rightarrow> error + (panel list \<times> nat)" where
  "loadPanels rt ids k [] = Inr ([], k)"
| "loadPanels rt ids k (p # ps) =
     bindE (loadPanel rt ids k p) (\<lambda>(pan, k1).
     bindE (loadPanels rt ids k1 ps) (\<lambda>(pans, k2). Inr (pan # pans, k2)))"

text \<open>
  The body of the \<^verbatim>\<open>try\<close> in \<open>loadJSON\<close>, on the value \<open>doc\<close> that
  \<^verbatim>\<open>JSON.parse\<close> returned: the shape check with its \<^verbatim>\<open>throw new Error('Invalid format')\<close>,
  then the new page. (A text that is not JSON makes \<^verbatim>\<open>JSON.parse\<close> throw inside the
  same \<^verbatim>\<open>try\<close>, with the same alert.)
\<close>

definition loadJSON_try :: "runtime \<Rightarrow> uids \<Rightarrow> nat \<Rightarrow> jsval \<Rightarrow> error + (page \<times> nat)" where
  "loadJSON_try rt ids k doc =
     (if \<not> truthy doc then Inl InvalidFormat
      else (case readProp doc ''panels'' of
              JArr ps \<Rightarrow>
                bindE (inLAYOUTS rt (readProp doc ''layout'')) (\<lambda>known.
                bindE (loadPanels rt ids k ps) (\<lambda>(pans, k').
                  Inr (\<lparr>layout = (if known then readProp doc ''layout'' else JStr ''4''),
                        panels = pans\<rparr>, k')))
            | _ \<Rightarrow> Inl InvalidFormat))"

text \<open>
  \<open>loadJSON\<close> on the current page: whatever the \<^verbatim>\<open>try\<close> throws is caught,
  the page stays and the user gets \<^verbatim>\<open>alert('Invalid JSON.')\<close>; otherwise the new
  page replaces the current one. The second component is the alert.
\<close>

definition loadJSON :: "runtime \<Rightarrow> uids \<Rightarrow> nat \<Rightarrow> jsval \<Rightarrow> page \<Rightarrow> page \<times> string option" where
  "loadJSON rt ids k doc current =
     (case loadJSON_try rt ids k doc of
        Inl e \<Rightarrow> (current, Some ''Invalid JSON.'')
      | Inr (p, k') \<Rightarrow> (p, None))"

section \<open>Saving a document\<close>

text \<open>
  \<open>saveJSON\<close> writes \<^verbatim>\<open>JSON.stringify(page)\<close>. \<open>jsonValue v\<close> is the value that
  \<^verbatim>\<open>JSON.parse\<close> reads back from the text of \<open>v\<close>: a property whose value is
  \<open>undefined\<close> is left out, \<open>undefined\<close> in an array and the numbers that are not
  finite become \<open>null\<close>.
\<close>

fun jsonValue :: "jsval \<Rightarrow> jsval" where
  "jsonValue (JNum n) = (case n of Fin q \<Rightarrow> JNum n | _ \<Rightarrow> JNull)"
| "jsonValue (JArr xs) = JArr (map (\<lambda>x. if x = JUndefined then JNull else jsonValue x) xs)"
| "jsonValue (JObj kvs) =
     JObj (map (\<lambda>(k, v). (k, jsonValue v)) (filter (\<lambda>(k, v). v \<noteq> JUndefined) kvs))"
| "jsonValue v = v"

definition panelValue :: "panel \<Rightarrow> jsval" where
  "panelValue pan =
     JObj [(''id'', panel_id pan), (''bg'', bg pan), (''elements'', JArr (map JObj (elements pan)))]"

definition pageValue :: "page \<Rightarrow> jsval" where
  "pageValue p = JObj [(''layout'', layout p), (''panels'', JArr (map panelValue (panels p)))]"

definition saveJSON :: "page \<Rightarrow> jsval" where
  "saveJSON p = jsonValue (pageValue p)"

section \<open>The mutation operations\<close>

text \<open>\<^verbatim>\<open>xs.map((x, i) => f(x, i))\<close>.\<close>

definition mapi :: "('a \<Rightarrow> nat \<Rightarrow> 'b) \<Rightarrow> 'a list \<Rightarrow> 'b list" where
  "mapi f xs = map (\<lambda>(i, x). f x i) (enumerate 0 xs)"

text \<open>
  \<^verbatim>\<open>a === b\<close>. Two objects are equal only when they are the same object, which the
  values here cannot tell; the operator is used on element ids, which are \<open>uid()\<close>
  strings.
\<close>

fun strictEq :: "jsval \<Rightarrow> jsval \<Rightarrow> bool" where
  "strictEq (JNum a) (JNum b) = (a = b \<and> a \<noteq> NaN)"
| "strictEq (JArr _) _ = False"
| "strictEq (JObj _) _ = False"
| "strictEq a b = (a = b)"

text \<open>The two patches that the program gives \<open>setPanel\<close>: \<^verbatim>\<open>{ bg }\<close> and
  \<^verbatim>\<open>{ elements }\<close>.\<close>

datatype panel_patch = PatchBg jsval | PatchElements "jsobj list"

fun patchPanel :: "panel \<Rightarrow> panel_patch \<Rightarrow> panel" where
  "patchPanel pan (PatchBg v) = pan\<lparr>bg := v\<rparr>"
| "patchPanel pan (PatchElements es) = pan\<lparr>elements := es\<rparr>"

definition setPanel :: "nat \<Rightarrow> panel_patch \<Rightarrow> page \<Rightarrow> page" where
  "setPanel idx patch p =
     p\<lparr>panels := mapi (\<lambda>pan i. if i = idx then patchPanel pan patch else pan) (panels p)\<rparr>"

definition mutateElement :: "nat \<Rightarrow> jsval \<Rightarrow> jsobj \<Rightarrow> page \<Rightarrow> page" where
  "mutateElement panelIdx elId patch p =
     p\<lparr>panels := mapi (\<lambda>pan i.
         if i \<noteq> panelIdx then pan
         else pan\<lparr>elements :=
                map (\<lambda>el. if strictEq (field el ''id'') elId then spread el patch else el)
                  (elements pan)\<rparr>)
       (panels p)\<rparr>"

text \<open>\<^verbatim>\<open>page.panels[panelIdx].elements\<close> throws when there is no such panel.\<close>

definition addText :: "nat \<Rightarrow> string \<Rightarrow> string \<Rightarrow> page \<Rightarrow> error + page" where
  "addText panelIdx subtype u p =
     (if panelIdx < length (panels p)
      then Inr (setPanel panelIdx
                 (PatchElements (elements (panels p ! panelIdx) @ [defaultText u subtype])) p)
      else Inl TypeError)"

text \<open>
  \<open>addImage\<close> once the probe of the file has settled: \<open>url\<close> is the object URL of the
  file, \<open>probe\<close> the natural size of the image, or \<open>None\<close> when it did not load.
\<close>

definition addImage :: "runtime \<Rightarrow> nat \<Rightarrow> string \<Rightarrow> (nat \<times> nat) option \<Rightarrow> string \<Rightarrow> page \<Rightarrow> error + page" where
  "addImage rt panelIdx url probe u p =
     (if panelIdx < length (panels p)
      then bindE (defaultImage rt u (JStr url)
                   (map_option (\<lambda>(nw, nh). [(''width'', num (of_nat nw)), (''height'', num (of_nat nh))])
                      probe)) (\<lambda>img.
             Inr (setPanel panelIdx (PatchElements (elements (panels p ! panelIdx) @ [img])) p))
      else Inl TypeError)"

definition removeElement :: "nat \<Rightarrow> jsval \<Rightarrow> page \<Rightarrow> page" where
  "removeElement panelIdx elId p =
     p\<lparr>panels := mapi (\<lambda>pan i.
         if i \<noteq> panelIdx then pan
         else pan\<lparr>elements := filter (\<lambda>el. \<not> strictEq (field el ''id'') elId) (elements pan)\<rparr>)
       (panels p)\<rparr>"

subsection \<open>Layout\<close>

definition onLayout :: "string \<Rightarrow> page \<Rightarrow> page" where
  "onLayout l p = p\<lparr>layout := JStr l\<rparr>"

text \<open>\<^verbatim>\<open>while (panels.length < need) panels.push({ id: uid(), bg: '#ffffff', elements: [] })\<close>\<close>

function padPanels :: "uids \<Rightarrow> nat \<Rightarrow> nat \<Rightarrow> panel list \<Rightarrow> panel list \<times> nat" where
  "padPanels ids k need ps =
     (if length ps < need then padPanels ids (Suc k) need (ps @ [emptyPanel (ids k)])
      else (ps, k))"
  by pat_completeness auto
termination
  by (relation "measure (\<lambda>(ids, k, need, ps). need - length ps)") auto

declare padPanels.simps [simp del]

text \<open>
  The effect that runs when \<^verbatim>\<open>page.layout\<close> has changed. \<^verbatim>\<open>LAYOUTS[page.layout]\<close>
  is a preset for the four keys, an inherited member of \<^verbatim>\<open>Object.prototype\<close> (whose
  \<open>panels\<close> is \<open>undefined\<close>, so that nothing is cut and nothing added) for the names
  defined there, and \<open>undefined\<close> otherwise, whose \<open>panels\<close> cannot be read.
\<close>

definition layoutEffect :: "runtime \<Rightarrow> uids \<Rightarrow> nat \<Rightarrow> page \<Rightarrow> error + (page \<times> nat)" where
  "layoutEffect rt ids k p =
     bindE (toStr rt (layout p)) (\<lambda>key.
       case map_of LAYOUTS key of
         Some pr \<Rightarrow>
           (let need = preset_panels pr;
                (ps, k') = padPanels ids k need (take need (panels p))
            in Inr (p\<lparr>panels := ps\<rparr>, k'))
       | None \<Rightarrow> if key \<in> set objectPrototypeKeys then Inr (p, k) else Inl TypeError)"

text \<open>
  Choosing a layout in the header, and what follows. The effect has the dependency
  \<^verbatim>\<open>[page.layout]\<close>: it runs after the render only when the new layout is not the
  one the page had (the comparison is \<^verbatim>\<open>Object.is\<close>, and the new layout is a string).
\<close>

definition changeLayout :: "runtime \<Rightarrow> uids \<Rightarrow> nat \<Rightarrow> string \<Rightarrow> page \<Rightarrow> error + (page \<times> nat)" where
  "changeLayout rt ids k l p =
     (if layout p = JStr l then Inr (onLayout l p, k)
      else layoutEffect rt ids k (onLayout l p))"

section \<open>Keyboard and pointer\<close>

record selection =
  panelIdx :: nat
  elId :: jsval

record keyEvent =
  key :: string
  shiftKey :: bool

text \<open>\<^verbatim>\<open>page.panels[panelIdx]?.elements.find(x => x.id === elId)\<close>\<close>

definition findElement :: "page \<Rightarrow> nat \<Rightarrow> jsval \<Rightarrow> jsobj option" where
  "findElement p idx i =
     (if idx < length (panels p)
      then find (\<lambda>x. strictEq (field x ''id'') i) (elements (panels p ! idx))
      else None)"

text \<open>
  The \<^verbatim>\<open>keydown\<close> handler. \<open>typing\<close> says that the first line returns: nothing
  has the focus, or an \<^verbatim>\<open>INPUT\<close> or a \<^verbatim>\<open>TEXTAREA\<close> has it. The result is the
  page and the selection after the key; an exception of the handler is \<open>Inl\<close>.
\<close>

definition onKey :: "runtime \<Rightarrow> bool \<Rightarrow> keyEvent \<Rightarrow> selection \<Rightarrow> page \<Rightarrow> error + (page \<times> selection)" where
  "onKey rt typing e sel p =
     (if typing then Inr (p, sel)
      else if nullish (elId sel) then Inr (p, sel)
      else
        let step = (if shiftKey e then 10 else 1) in
        if key e = ''Delete'' \<or> key e = ''Backspace''
        then Inr (removeElement (panelIdx sel) (elId sel) p, sel\<lparr>elId := JNull\<rparr>)
        else if key e \<in> set [''ArrowUp'', ''ArrowDown'', ''ArrowLeft'', ''ArrowRight'']
        then (case findElement p (panelIdx sel) (elId sel) of
                None \<Rightarrow> Inr (p, sel)
              | Some el \<Rightarrow>
                  let dx = (if key e = ''ArrowRight'' then step
                            else if key e = ''ArrowLeft'' then - step else 0);
                      dy = (if key e = ''ArrowDown'' then step
                            else if key e = ''ArrowUp'' then - step else 0)
                  in bindE (jsAdd rt (field el ''x'') (Fin dx)) (\<lambda>x.
                     bindE (jsAdd rt (field el ''y'') (Fin dy)) (\<lambda>y.
                       Inr (mutateElement (panelIdx sel) (elId sel) [(''x'', x), (''y'', y)] p, sel))))
        else if key e = '']''
        then (case findElement p (panelIdx sel) (elId sel) of
                None \<Rightarrow> Inr (p, sel)
              | Some el \<Rightarrow>
                  bindE (jsAdd rt (orElse (field el ''z'') (num 0)) (Fin 1)) (\<lambda>z.
                    Inr (mutateElement (panelIdx sel) (elId sel) [(''z'', z)] p, sel)))
        else if key e = ''[''
        then (case findElement p (panelIdx sel) (elId sel) of
                None \<Rightarrow> Inr (p, sel)
              | Some el \<Rightarrow>
                  bindE (jsSub rt (orElse (field el ''z'') (num 0)) (Fin 1)) (\<lambda>m.
                    Inr (mutateElement (panelIdx sel) (elId sel)
                           [(''z'', JNum (mathMax (Fin 0) m))] p, sel)))
        else Inr (p, sel))"

datatype dragKind = Move | Resize

record drag =
  drag_id :: jsval
  kind :: dragKind
  startX :: rat
  startY :: rat
  startRect :: jsobj

text \<open>\<open>startDrag\<close> of panel \<open>idx\<close>: the element is selected and the gesture recorded.\<close>

definition startDrag :: "nat \<Rightarrow> rat \<Rightarrow> rat \<Rightarrow> jsobj \<Rightarrow> dragKind \<Rightarrow> selection \<times> drag option" where
  "startDrag idx clientX clientY el kd =
     (\<lparr>panelIdx = idx, elId = field el ''id''\<rparr>,
      Some \<lparr>drag_id = field el ''id'', kind = kd, startX = clientX, startY = clientY,
            startRect = [(''x'', field el ''x''), (''y'', field el ''y''),
                         (''w'', field el ''w''), (''h'', field el ''h'')]\<rparr>)"

text \<open>
  The \<^verbatim>\<open>pointermove\<close> handler of panel \<open>idx\<close>; \<open>dragRef\<close> is \<open>None\<close> when no
  gesture is active. The pointer coordinates are finite numbers;
  \<^verbatim>\<open>e.clientX - startX\<close> is a subtraction of numbers like any other.
\<close>

definition move :: "runtime \<Rightarrow> nat \<Rightarrow> drag option \<Rightarrow> rat \<Rightarrow> rat \<Rightarrow> page \<Rightarrow> error + page" where
  "move rt idx dragRef clientX clientY p =
     (case dragRef of
        None \<Rightarrow> Inr p
      | Some d \<Rightarrow>
          let dx = numMinus rt (Fin clientX) (Fin (startX d));
              dy = numMinus rt (Fin clientY) (Fin (startY d))
          in
          if kind d = Move
          then bindE (jsAdd rt (field (startRect d) ''x'') dx) (\<lambda>x.
               bindE (jsAdd rt (field (startRect d) ''y'') dy) (\<lambda>y.
                 Inr (mutateElement idx (drag_id d) [(''x'', x), (''y'', y)] p)))
          else bindE (jsAdd rt (field (startRect d) ''w'') dx) (\<lambda>sw.
               bindE (toNumber rt sw) (\<lambda>nw.
               bindE (jsAdd rt (field (startRect d) ''h'') dy) (\<lambda>sh.
               bindE (toNumber rt sh) (\<lambda>nh.
                 Inr (mutateElement idx (drag_id d)
                        [(''w'', JNum (mathMax (Fin 20) nw)),
                         (''h'', JNum (mathMax (Fin 20) nh))] p))))))"

section \<open>Export\<close>

text \<open>
  \<open>exportPNG\<close>. \<open>board\<close> says that \<^verbatim>\<open>boardRef.current\<close> is set; \<open>rendered\<close> is
  what \<^verbatim>\<open>await toPng(...)\<close> gives: \<open>None\<close> when it throws, the data URL otherwise;
  \<open>now\<close> is \<^verbatim>\<open>Date.now()\<close>. The state is \<^verbatim>\<open>localStorage\<close>; the result holds the
  new storage, the file that is downloaded (name and content) and the alert.
  Writing to \<^verbatim>\<open>localStorage\<close> is taken to succeed. The new count is only
  printed, by \<^verbatim>\<open>String(n)\<close>: the exact sum is handed to the runtime's
  \<open>numberToString\<close>, which stands for rounding and printing together.
\<close>

type_synonym storage = "string \<rightharpoonup> string"

definition exportPNG ::
  "runtime \<Rightarrow> bool \<Rightarrow> string option \<Rightarrow> jsnum \<Rightarrow> storage
     \<Rightarrow> storage \<times> (string \<times> string) option \<times> string option" where
  "exportPNG rt board rendered now localStorage =
     (if \<not> board then (localStorage, None, None)
      else (case rendered of
              None \<Rightarrow>
                (localStorage, None, Some ''Export failed. (CORS or memory). Try smaller images.'')
            | Some dataUrl \<Rightarrow>
                let stored = (case localStorage ''comicsCount'' of
                                None \<Rightarrow> ''0''
                              | Some s \<Rightarrow> if s = [] then ''0'' else s);
                    n = numAdd (stringToNumber rt stored) (Fin 1)
                in (localStorage(''comicsCount'' \<mapsto> numberToString rt n),
                    Some (''comic-'' @ numberToString rt now @ ''.png'', dataUrl),
                    Some ''Exported PNG and updated dashboard count.'')))"

section \<open>A runtime for the examples\<close>

text \<open>
  The closed examples below need one runtime. This one reads the empty string as 0 and
  a string of decimal digits as the number it writes, as ECMAScript does, and every
  other string as \<open>NaN\<close>, which is what ECMAScript gives for the one such string of
  the examples (\<^verbatim>\<open>abc\<close>). It prints \<open>NaN\<close>, the infinities and the integers as
  ECMAScript prints them (integers below \<open>10^21\<close>; of a fraction, which no example
  prints, it prints the integer part). It rounds the integers of magnitude below
  \<open>2^54\<close> as ECMAScript does: those up to \<open>2^53\<close> and the even ones beyond are
  doubles and stay as they are, an odd one beyond \<open>2^53\<close> lies halfway between two
  doubles and goes to the one that is a multiple of 4. Every other number it returns
  unrounded, which is right for the doubles among them.
\<close>

definition digitValue :: "char \<Rightarrow> nat" where
  "digitValue c = of_char c - 48"

definition isDigit :: "char \<Rightarrow> bool" where
  "isDigit c = (48 \<le> (of_char c :: nat) \<and> (of_char c :: nat) \<le> 57)"

definition readDecimal :: "string \<Rightarrow> jsnum" where
  "readDecimal s =
     (if s = [] then Fin 0
      else if list_all isDigit s then Fin (of_nat (foldl (\<lambda>a c. 10 * a + digitValue c) 0 s))
      else NaN)"

function showNat :: "nat \<Rightarrow> string" where
  "showNat n =
     (if n < 10 then [''0123456789'' ! n]
      else showNat (n div 10) @ [''0123456789'' ! (n mod 10)])"
  by pat_completeness auto
termination
  by (relation "measure id") auto

declare showNat.simps [simp del]

definition showNumber :: "jsnum \<Rightarrow> string" where
  "showNumber n =
     (case n of
        NaN \<Rightarrow> ''NaN''
      | PInf \<Rightarrow> ''Infinity''
      | NInf \<Rightarrow> ''-Infinity''
      | Fin q \<Rightarrow> (if q < 0 then ''-'' @ showNat (nat \<lfloor>- q\<rfloor>) else showNat (nat \<lfloor>q\<rfloor>)))"

definition roundSample :: "rat \<Rightarrow> jsnum" where
  "roundSample q =
     (if 9007199254740992 < \<bar>q\<bar> \<and> \<bar>q\<bar> < 18014398509481984 \<and> q = of_int \<lfloor>q\<rfloor> \<and> odd \<lfloor>q\<rfloor>
      then Fin (of_int (4 * ((\<lfloor>q\<rfloor> + 2) div 4)))
      else Fin q)"

definition sampleRuntime :: runtime where
  "sampleRuntime =
     \<lparr>stringToNumber = readDecimal, numberToString = showNumber, roundNumber = roundSample\<rparr>"

definition sampleIds :: uids where
  "sampleIds k = ''u'' @ showNat k"

section \<open>Properties of documents\<close>

text \<open>
  The documented ranges of the numeric fields: \<open>x\<close>, \<open>y\<close> in \<open>[0, 10000]\<close>; for an
  image \<open>w\<close>, \<open>h\<close> in \<open>[10, 10000]\<close>; for a text \<open>w\<close> in \<open>[40, 10000]\<close>, \<open>h\<close> in
  \<open>[30, 10000]\<close>, \<open>fontSize\<close> in \<open>[8, 160]\<close>, \<open>radius\<close> in \<open>[0, 64]\<close> and
  \<open>weight\<close> in \<open>[100, 900]\<close>. A field is in its range when it is a finite number
  between the bounds.
\<close>

definition fieldIn :: "jsobj \<Rightarrow> string \<Rightarrow> rat \<Rightarrow> rat \<Rightarrow> bool" where
  "fieldIn el k a b = (case field el k of JNum (Fin q) \<Rightarrow> a \<le> q \<and> q \<le> b | _ \<Rightarrow> False)"

definition inRange :: "jsobj \<Rightarrow> bool" where
  "inRange el =
     (fieldIn el ''x'' 0 10000 \<and> fieldIn el ''y'' 0 10000 \<and>
      (if field el ''type'' = JStr ''image''
       then fieldIn el ''w'' 10 10000 \<and> fieldIn el ''h'' 10 10000
       else fieldIn el ''w'' 40 10000 \<and> fieldIn el ''h'' 30 10000 \<and>
            fieldIn el ''fontSize'' 8 160 \<and> fieldIn el ''radius'' 0 64 \<and>
            fieldIn el ''weight'' 100 900))"

definition inRangePage :: "page \<Rightarrow> bool" where
  "inRangePage p = list_all (\<lambda>pan. list_all inRange (elements pan)) (panels p)"

text \<open>The same, with \<open>NaN\<close> allowed: what \<open>clamp\<close> guarantees.\<close>

definition fieldInOrNaN :: "jsobj \<Rightarrow> string \<Rightarrow> rat \<Rightarrow> rat \<Rightarrow> bool" where
  "fieldInOrNaN el k a b =
     (case field el k of JNum (Fin q) \<Rightarrow> a \<le> q \<and> q \<le> b | JNum NaN \<Rightarrow> True | _ \<Rightarrow> False)"

definition inRangeOrNaN :: "jsobj \<Rightarrow> bool" where
  "inRangeOrNaN el =
     (fieldInOrNaN el ''x'' 0 10000 \<and> fieldInOrNaN el ''y'' 0 10000 \<and>
      (if field el ''type'' = JStr ''image''
       then fieldInOrNaN el ''w'' 10 10000 \<and> fieldInOrNaN el ''h'' 10 10000
       else fieldInOrNaN el ''w'' 40 10000 \<and> fieldInOrNaN el ''h'' 30 10000 \<and>
            fieldInOrNaN el ''fontSize'' 8 160 \<and> fieldInOrNaN el ''radius'' 0 64 \<and>
            fieldInOrNaN el ''weight'' 100 900))"

text \<open>
  Shapes of a parsed document. A primitive is a value that is neither an array nor an
  object; converting it to a number or to a string cannot throw.
\<close>

fun primitive :: "jsval \<Rightarrow> bool" where
  "primitive (JArr _) = False"
| "primitive (JObj _) = False"
| "primitive _ = True"

fun isArray :: "jsval \<Rightarrow> bool" where
  "isArray (JArr _) = True"
| "isArray _ = False"

text \<open>An element entry that is not \<open>null\<close> and, when an object, has primitive fields.\<close>

definition plainEntry :: "jsval \<Rightarrow> bool" where
  "plainEntry el =
     (\<not> nullish el \<and> (case el of JObj kvs \<Rightarrow> list_all (\<lambda>(k, v). primitive v) kvs | _ \<Rightarrow> True))"

text \<open>A panel entry that is not \<open>null\<close> and whose elements, when an array, are plain.\<close>

definition plainPanel :: "jsval \<Rightarrow> bool" where
  "plainPanel p =
     (\<not> nullish p \<and>
      (case readProp p ''elements'' of JArr els \<Rightarrow> list_all plainEntry els | _ \<Rightarrow> True))"

definition plainDocument :: "jsval \<Rightarrow> bool" where
  "plainDocument doc =
     (truthy doc \<and> primitive (readProp doc ''layout'') \<and>
      (case readProp doc ''panels'' of JArr ps \<Rightarrow> list_all plainPanel ps | _ \<Rightarrow> False))"

text \<open>The subtype that \<open>sanitizeText\<close> gives an element.\<close>

definition textSubtype :: "jsval \<Rightarrow> string" where
  "textSubtype el = oneOf [''speech'', ''caption'', ''sfx''] (readProp el ''subtype'') ''speech''"

text \<open>
  The page of the examples: a new document (\<open>DEFAULT_PAGE\<close>, whose panels take the ids
  \<open>u0\<close> to \<open>u3\<close>) to whose first panel \<open>addText\<close> has added a speech bubble, with
  the id \<open>u4\<close>.
\<close>

definition examplePage :: page where
  "examplePage =
     \<lparr>layout = JStr ''4'',
      panels = [\<lparr>panel_id = JStr ''u0'', bg = JStr ''#ffffff'',
                  elements = [defaultText ''u4'' ''speech'']\<rparr>,
                emptyPanel ''u1'', emptyPanel ''u2'', emptyPanel ''u3'']\<rparr>"

text \<open>
  The entries of an array, and a panel entry on which the sanitizer throws for sure:
  it is \<open>null\<close>, or one of its elements is.
\<close>

fun arrayItems :: "jsval \<Rightarrow> jsval list" where
  "arrayItems (JArr xs) = xs"
| "arrayItems _ = []"

definition brokenPanel :: "jsval \<Rightarrow> bool" where
  "brokenPanel p = (nullish p \<or> list_ex nullish (arrayItems (readProp p ''elements'')))"

text \<open>A second page for the examples: one panel with an image of 100 by 50 at \<open>z = 0\<close>.\<close>

definition exampleImage :: jsobj where
  "exampleImage =
     [(''id'', JStr ''u6''), (''type'', JStr ''image''), (''src'', JStr ''blob:example''),
      (''x'', num 24), (''y'', num 24), (''w'', num 100), (''h'', num 50),
      (''z'', num 0), (''rotate'', num 0)]"

definition imagePage :: page where
  "imagePage =
     \<lparr>layout = JStr ''1'',
      panels = [\<lparr>panel_id = JStr ''u0'', bg = JStr ''#ffffff'', elements = [exampleImage]\<rparr>]\<rparr>"

text \<open>The fields that decide whether an element is within the documented ranges.\<close>

definition rangedFields :: "string list" where
  "rangedFields = [''type'', ''x'', ''y'', ''w'', ''h'', ''fontSize'', ''radius'', ''weight'']"



section \<open>Auxiliary facts\<close>

lemma bindE_Inr: "bindE m f = Inr y \<longleftrightarrow> (\<exists>x. m = Inr x \<and> f x = Inr y)"
  by (cases m) (simp_all add: bindE_def)

lemma clamp_cases:
  "clamp rt v (Fin a) (Fin b) = Inr n \<Longrightarrow> a \<le> b \<Longrightarrow> n = NaN \<or> (\<exists>q. n = Fin q \<and> a \<le> q \<and> q \<le> b)"
proof -
  assume c: "clamp rt v (Fin a) (Fin b) = Inr n" and ab: "a \<le> b"
  then obtain m where n: "n = mathMax (Fin a) (mathMin (Fin b) m)"
    by (cases "toNumber rt v") (auto simp: clamp_def)
  show ?thesis using ab unfolding n
    by (cases m) (simp_all add: mathMax_def mathMin_def)
qed

lemma spread_image:
  "spread [(''id'', a), (''type'', b), (''src'', c), (''x'', x0), (''y'', y0), (''w'', w0),
           (''h'', h0), (''z'', z0), (''rotate'', r0)]
     [(''x'', x), (''y'', y), (''w'', w), (''h'', h), (''z'', z), (''rotate'', r)]
   = [(''id'', a), (''type'', b), (''src'', c), (''x'', x), (''y'', y), (''w'', w),
           (''h'', h), (''z'', z), (''rotate'', r)]"
  by simp

lemma sanitizeImage_Inr:
  assumes "sanitizeImage rt u el = Inr e"
  shows "\<exists>x y w h.
     clamp rt (orElse (readProp el ''x'') (num 24)) (Fin 0) (Fin 10000) = Inr x \<and>
     clamp rt (orElse (readProp el ''y'') (num 24)) (Fin 0) (Fin 10000) = Inr y \<and>
     clamp rt (orElse (readProp el ''w'') (num 300)) (Fin 10) (Fin 10000) = Inr w \<and>
     clamp rt (orElse (readProp el ''h'') (num 220)) (Fin 10) (Fin 10000) = Inr h \<and>
     e = [(''id'', JStr u), (''type'', JStr ''image''),
          (''src'', jsOr (readProp el ''src'') (JStr [])),
          (''x'', JNum x), (''y'', JNum y), (''w'', JNum w), (''h'', JNum h),
          (''z'', orElse (readProp el ''z'') (num 0)),
          (''rotate'', orElse (readProp el ''rotate'') (num 0))]"
  using assms unfolding sanitizeImage_def defaultImage_def bindE_Inr
  by (auto simp del: spread.simps simp add: spread_image)

lemma spread_text:
  "spread [(''id'', a), (''type'', b), (''subtype'', c), (''text'', t0), (''x'', x0), (''y'', y0),
           (''w'', w0), (''h'', h0), (''fontSize'', f0), (''color'', c0), (''bg'', b0),
           (''rotate'', r0), (''z'', z0), (''align'', a0), (''radius'', rd0), (''weight'', wt0)]
     [(''text'', t), (''x'', x), (''y'', y), (''w'', w), (''h'', h), (''fontSize'', f),
      (''color'', cl), (''bg'', bg'), (''rotate'', r), (''z'', z), (''align'', al),
      (''radius'', rd), (''weight'', wt)]
   = [(''id'', a), (''type'', b), (''subtype'', c), (''text'', t), (''x'', x), (''y'', y),
           (''w'', w), (''h'', h), (''fontSize'', f), (''color'', cl), (''bg'', bg'),
           (''rotate'', r), (''z'', z), (''align'', al), (''radius'', rd), (''weight'', wt)]"
  by simp

lemma sanitizeText_Inr:
  assumes "sanitizeText rt u el = Inr e"
  shows "\<exists>txt x y w h fs r wt.
     toStr rt (orElse (readProp el ''text'') (JStr [])) = Inr txt \<and>
     clamp rt (orElse (readProp el ''x'') (num 24)) (Fin 0) (Fin 10000) = Inr x \<and>
     clamp rt (orElse (readProp el ''y'') (num 24)) (Fin 0) (Fin 10000) = Inr y \<and>
     clamp rt (orElse (readProp el ''w'') (num 200)) (Fin 40) (Fin 10000) = Inr w \<and>
     clamp rt (orElse (readProp el ''h'') (num 80)) (Fin 30) (Fin 10000) = Inr h \<and>
     clamp rt (orElse (readProp el ''fontSize'') (num 20)) (Fin 8) (Fin 160) = Inr fs \<and>
     clamp rt (orElse (readProp el ''radius'') (num (if textSubtype el = ''speech'' then 16 else 8)))
       (Fin 0) (Fin 64) = Inr r \<and>
     clamp rt (orElse (readProp el ''weight'') (num (if textSubtype el = ''sfx'' then 800 else 600)))
       (Fin 100) (Fin 900) = Inr wt \<and>
     e = [(''id'', JStr u), (''type'', JStr ''text''), (''subtype'', JStr (textSubtype el)),
          (''text'', JStr (take 2000 txt)),
          (''x'', JNum x), (''y'', JNum y), (''w'', JNum w), (''h'', JNum h),
          (''fontSize'', JNum fs),
          (''color'', jsOr (readProp el ''color'') (JStr ''#111827'')),
          (''bg'', jsOr (readProp el ''bg'')
                    (JStr (if textSubtype el = ''caption'' then ''#fef3c7'' else ''#ffffffcc''))),
          (''rotate'', orElse (readProp el ''rotate'') (num 0)),
          (''z'', orElse (readProp el ''z'') (num 1)),
          (''align'', JStr (oneOf [''left'', ''center'', ''right''] (readProp el ''align'') ''left'')),
          (''radius'', JNum r), (''weight'', JNum wt)]"
  using assms unfolding sanitizeText_def defaultText_def bindE_Inr Let_def textSubtype_def
  by (auto simp del: spread.simps simp add: spread_text)


lemma sanitizeElement_cases:
  assumes "sanitizeElement rt u el = Inr e"
  shows "(readProp el ''type'' = JStr ''image'' \<and> sanitizeImage rt u el = Inr e) \<or>
         (readProp el ''type'' \<noteq> JStr ''image'' \<and> sanitizeText rt u el = Inr e)"
  using assms unfolding sanitizeElement_def bindE_Inr readProp_def
  by (auto split: if_splits)

lemma fieldInOrNaN_clamp:
  assumes "clamp rt v (Fin a) (Fin b) = Inr n" "a \<le> b" "field e k = JNum n"
  shows "fieldInOrNaN e k a b"
  using clamp_cases[OF assms(1,2)] assms(3) by (auto simp: fieldInOrNaN_def)

lemma sanitize_inRangeOrNaN:
  assumes "sanitizeElement rt u el = Inr e"
  shows "inRangeOrNaN e"
proof -
  from sanitizeElement_cases[OF assms] show ?thesis
  proof (elim disjE conjE)
    assume "sanitizeImage rt u el = Inr e"
    from sanitizeImage_Inr[OF this] obtain x y w h where
      c: "clamp rt (orElse (readProp el ''x'') (num 24)) (Fin 0) (Fin 10000) = Inr x"
         "clamp rt (orElse (readProp el ''y'') (num 24)) (Fin 0) (Fin 10000) = Inr y"
         "clamp rt (orElse (readProp el ''w'') (num 300)) (Fin 10) (Fin 10000) = Inr w"
         "clamp rt (orElse (readProp el ''h'') (num 220)) (Fin 10) (Fin 10000) = Inr h"
      and e: "e = [(''id'', JStr u), (''type'', JStr ''image''),
          (''src'', jsOr (readProp el ''src'') (JStr [])),
          (''x'', JNum x), (''y'', JNum y), (''w'', JNum w), (''h'', JNum h),
          (''z'', orElse (readProp el ''z'') (num 0)),
          (''rotate'', orElse (readProp el ''rotate'') (num 0))]" by blast
    have f: "field e ''type'' = JStr ''image''" "field e ''x'' = JNum x" "field e ''y'' = JNum y"
      "field e ''w'' = JNum w" "field e ''h'' = JNum h"
      by (simp_all add: e field_def)
    show ?thesis unfolding inRangeOrNaN_def
      using fieldInOrNaN_clamp[OF c(1) _ f(2)] fieldInOrNaN_clamp[OF c(2) _ f(3)]
        fieldInOrNaN_clamp[OF c(3) _ f(4)] fieldInOrNaN_clamp[OF c(4) _ f(5)] f(1)
      by simp
  next
    assume "sanitizeText rt u el = Inr e"
    from sanitizeText_Inr[OF this] obtain tx x y w h fs r wt where
      c: "clamp rt (orElse (readProp el ''x'') (num 24)) (Fin 0) (Fin 10000) = Inr x"
         "clamp rt (orElse (readProp el ''y'') (num 24)) (Fin 0) (Fin 10000) = Inr y"
         "clamp rt (orElse (readProp el ''w'') (num 200)) (Fin 40) (Fin 10000) = Inr w"
         "clamp rt (orElse (readProp el ''h'') (num 80)) (Fin 30) (Fin 10000) = Inr h"
         "clamp rt (orElse (readProp el ''fontSize'') (num 20)) (Fin 8) (Fin 160) = Inr fs"
         "clamp rt (orElse (readProp el ''radius'') (num (if textSubtype el = ''speech'' then 16 else 8)))
            (Fin 0) (Fin 64) = Inr r"
         "clamp rt (orElse (readProp el ''weight'') (num (if textSubtype el = ''sfx'' then 800 else 600)))
            (Fin 100) (Fin 900) = Inr wt"
      and e: "e = [(''id'', JStr u), (''type'', JStr ''text''), (''subtype'', JStr (textSubtype el)),
          (''text'', JStr (take 2000 tx)),
          (''x'', JNum x), (''y'', JNum y), (''w'', JNum w), (''h'', JNum h),
          (''fontSize'', JNum fs),
          (''color'', jsOr (readProp el ''color'') (JStr ''#111827'')),
          (''bg'', jsOr (readProp el ''bg'')
                    (JStr (if textSubtype el = ''caption'' then ''#fef3c7'' else ''#ffffffcc''))),
          (''rotate'', orElse (readProp el ''rotate'') (num 0)),
          (''z'', orElse (readProp el ''z'') (num 1)),
          (''align'', JStr (oneOf [''left'', ''center'', ''right''] (readProp el ''align'') ''left'')),
          (''radius'', JNum r), (''weight'', JNum wt)]" by blast
    have f: "field e ''type'' = JStr ''text''" "field e ''x'' = JNum x" "field e ''y'' = JNum y"
      "field e ''w'' = JNum w" "field e ''h'' = JNum h" "field e ''fontSize'' = JNum fs"
      "field e ''radius'' = JNum r" "field e ''weight'' = JNum wt"
      by (simp_all add: e field_def)
    show ?thesis unfolding inRangeOrNaN_def
      using fieldInOrNaN_clamp[OF c(1) _ f(2)] fieldInOrNaN_clamp[OF c(2) _ f(3)]
        fieldInOrNaN_clamp[OF c(3) _ f(4)] fieldInOrNaN_clamp[OF c(4) _ f(5)]
        fieldInOrNaN_clamp[OF c(5) _ f(6)] fieldInOrNaN_clamp[OF c(6) _ f(7)]
        fieldInOrNaN_clamp[OF c(7) _ f(8)] f(1)
      by simp
  qed
qed

lemma clamp_again:
  assumes "clamp rt v (Fin a) (Fin b) = Inr n" "a \<le> b"
  shows "clamp rt (orElse (JNum n) d) (Fin a) (Fin b) = Inr n"
  using clamp_cases[OF assms]
  by (auto simp: clamp_def orElse_def nullish_def mathMax_def mathMin_def)

lemma jsOr_again: "jsOr (jsOr s d) d = jsOr s d"
  by (simp add: jsOr_def)

lemma orElse_again: "\<not> nullish d \<Longrightarrow> orElse (orElse z d) d' = orElse z d"
  by (simp add: orElse_def)

lemma toNumber_natural:
  "\<exists>n. toNumber rt (naturalOr (Some [(''width'', JNum w), (''height'', JNum h)]) k d) = Inr n"
  by (simp add: naturalOr_def jsOr_def field_def)

lemma defaultImage_again:
  "\<exists>a b. defaultImage rt u s (Some [(''width'', JNum w), (''height'', JNum h)]) =
     Inr [(''id'', JStr u), (''type'', JStr ''image''), (''src'', s),
            (''x'', num 24), (''y'', num 24), (''w'', JNum a), (''h'', JNum b),
            (''z'', num 0), (''rotate'', num 0)]"
  using toNumber_natural[of rt w h "''width''" 300] toNumber_natural[of rt w h "''height''" 220]
  by (auto simp: defaultImage_def bindE_def)

lemma resanitize_image:
  assumes "sanitizeImage rt u el = Inr e"
  shows "sanitizeElement rt u' (JObj e) = Inr (setField ''id'' (JStr u') e)"
proof -
  from sanitizeImage_Inr[OF assms] obtain x y w h where
      c: "clamp rt (orElse (readProp el ''x'') (num 24)) (Fin 0) (Fin 10000) = Inr x"
         "clamp rt (orElse (readProp el ''y'') (num 24)) (Fin 0) (Fin 10000) = Inr y"
         "clamp rt (orElse (readProp el ''w'') (num 300)) (Fin 10) (Fin 10000) = Inr w"
         "clamp rt (orElse (readProp el ''h'') (num 220)) (Fin 10) (Fin 10000) = Inr h"
      and e: "e = [(''id'', JStr u), (''type'', JStr ''image''),
          (''src'', jsOr (readProp el ''src'') (JStr [])),
          (''x'', JNum x), (''y'', JNum y), (''w'', JNum w), (''h'', JNum h),
          (''z'', orElse (readProp el ''z'') (num 0)),
          (''rotate'', orElse (readProp el ''rotate'') (num 0))]" by blast
  have r: "readProp (JObj e) ''type'' = JStr ''image''"
    "readProp (JObj e) ''src'' = jsOr (readProp el ''src'') (JStr [])"
    "readProp (JObj e) ''x'' = JNum x" "readProp (JObj e) ''y'' = JNum y"
    "readProp (JObj e) ''w'' = JNum w" "readProp (JObj e) ''h'' = JNum h"
    "readProp (JObj e) ''z'' = orElse (readProp el ''z'') (num 0)"
    "readProp (JObj e) ''rotate'' = orElse (readProp el ''rotate'') (num 0)"
    by (simp_all add: e readProp_def field_def)
  obtain a b where d: "defaultImage rt u' (jsOr (readProp el ''src'') (JStr []))
       (Some [(''width'', JNum w), (''height'', JNum h)]) =
     Inr [(''id'', JStr u'), (''type'', JStr ''image''), (''src'', jsOr (readProp el ''src'') (JStr [])),
            (''x'', num 24), (''y'', num 24), (''w'', JNum a), (''h'', JNum b),
            (''z'', num 0), (''rotate'', num 0)]"
    using defaultImage_again by blast
  have g: "getProp (JObj e) ''type'' = Inr (JStr ''image'')"
    by (simp add: e field_def)
  have s: "sanitizeImage rt u' (JObj e) = Inr (setField ''id'' (JStr u') e)"
    unfolding sanitizeImage_def r jsOr_again d
    by (simp add: bindE_def clamp_again[OF c(1)] clamp_again[OF c(2)] clamp_again[OF c(3)]
        clamp_again[OF c(4)] orElse_again nullish_def e del: spread.simps add: spread_image)
  show ?thesis unfolding sanitizeElement_def g by (simp add: bindE_def s)
qed


lemma oneOf_again: "d \<in> set allowed \<Longrightarrow> oneOf allowed (JStr (oneOf allowed v d)) d = oneOf allowed v d"
  by (cases v) (simp_all add: oneOf_def)

lemma resanitize_text:
  assumes "sanitizeText rt u el = Inr e"
  shows "sanitizeElement rt u' (JObj e) = Inr (setField ''id'' (JStr u') e)"
proof -
  from sanitizeText_Inr[OF assms] obtain tx x y w h fs r wt where
      c: "clamp rt (orElse (readProp el ''x'') (num 24)) (Fin 0) (Fin 10000) = Inr x"
         "clamp rt (orElse (readProp el ''y'') (num 24)) (Fin 0) (Fin 10000) = Inr y"
         "clamp rt (orElse (readProp el ''w'') (num 200)) (Fin 40) (Fin 10000) = Inr w"
         "clamp rt (orElse (readProp el ''h'') (num 80)) (Fin 30) (Fin 10000) = Inr h"
         "clamp rt (orElse (readProp el ''fontSize'') (num 20)) (Fin 8) (Fin 160) = Inr fs"
         "clamp rt (orElse (readProp el ''radius'') (num (if textSubtype el = ''speech'' then 16 else 8)))
            (Fin 0) (Fin 64) = Inr r"
         "clamp rt (orElse (readProp el ''weight'') (num (if textSubtype el = ''sfx'' then 800 else 600)))
            (Fin 100) (Fin 900) = Inr wt"
      and e: "e = [(''id'', JStr u), (''type'', JStr ''text''), (''subtype'', JStr (textSubtype el)),
          (''text'', JStr (take 2000 tx)),
          (''x'', JNum x), (''y'', JNum y), (''w'', JNum w), (''h'', JNum h),
          (''fontSize'', JNum fs),
          (''color'', jsOr (readProp el ''color'') (JStr ''#111827'')),
          (''bg'', jsOr (readProp el ''bg'')
                    (JStr (if textSubtype el = ''caption'' then ''#fef3c7'' else ''#ffffffcc''))),
          (''rotate'', orElse (readProp el ''rotate'') (num 0)),
          (''z'', orElse (readProp el ''z'') (num 1)),
          (''align'', JStr (oneOf [''left'', ''center'', ''right''] (readProp el ''align'') ''left'')),
          (''radius'', JNum r), (''weight'', JNum wt)]" by blast
  have r: "readProp (JObj e) ''type'' = JStr ''text''"
    "readProp (JObj e) ''subtype'' = JStr (textSubtype el)"
    "readProp (JObj e) ''text'' = JStr (take 2000 tx)"
    "readProp (JObj e) ''x'' = JNum x" "readProp (JObj e) ''y'' = JNum y"
    "readProp (JObj e) ''w'' = JNum w" "readProp (JObj e) ''h'' = JNum h"
    "readProp (JObj e) ''fontSize'' = JNum fs"
    "readProp (JObj e) ''color'' = jsOr (readProp el ''color'') (JStr ''#111827'')"
    "readProp (JObj e) ''bg'' = jsOr (readProp el ''bg'')
                    (JStr (if textSubtype el = ''caption'' then ''#fef3c7'' else ''#ffffffcc''))"
    "readProp (JObj e) ''rotate'' = orElse (readProp el ''rotate'') (num 0)"
    "readProp (JObj e) ''z'' = orElse (readProp el ''z'') (num 1)"
    "readProp (JObj e) ''align'' =
       JStr (oneOf [''left'', ''center'', ''right''] (readProp el ''align'') ''left'')"
    "readProp (JObj e) ''radius'' = JNum r" "readProp (JObj e) ''weight'' = JNum wt"
    by (simp_all add: e readProp_def field_def)
  have st: "oneOf [''speech'', ''caption'', ''sfx''] (JStr (textSubtype el)) ''speech'' = textSubtype el"
    unfolding textSubtype_def by (rule oneOf_again) simp
  have al: "oneOf [''left'', ''center'', ''right'']
       (JStr (oneOf [''left'', ''center'', ''right''] (readProp el ''align'') ''left'')) ''left'' =
     oneOf [''left'', ''center'', ''right''] (readProp el ''align'') ''left''"
    by (rule oneOf_again) simp
  have tx: "toStr rt (orElse (JStr (take 2000 tx)) (JStr [])) = Inr (take 2000 tx)"
    by (simp add: orElse_def nullish_def)
  have g: "getProp (JObj e) ''type'' = Inr (JStr ''text'')"
    by (simp add: e field_def)
  have s: "sanitizeText rt u' (JObj e) = Inr (setField ''id'' (JStr u') e)"
    unfolding sanitizeText_def r st al Let_def tx jsOr_again defaultText_def
    by (simp add: bindE_def clamp_again[OF c(1)] clamp_again[OF c(2)] clamp_again[OF c(3)]
        clamp_again[OF c(4)] clamp_again[OF c(5)] clamp_again[OF c(6)] clamp_again[OF c(7)]
        orElse_again nullish_def e del: spread.simps add: spread_text)
  show ?thesis unfolding sanitizeElement_def g by (simp add: bindE_def s)
qed

text \<open>
  Sanitizing a sanitized element again changes its \<open>id\<close> and nothing else: the new
  \<open>id\<close> is the next \<^verbatim>\<open>uid()\<close>, the \<open>id\<close> of the input is never read.
\<close>

lemma resanitize:
  assumes "sanitizeElement rt u el = Inr e"
  shows "sanitizeElement rt u' (JObj e) = Inr (setField ''id'' (JStr u') e)"
  using sanitizeElement_cases[OF assms] resanitize_image resanitize_text by blast

subsection \<open>The example page\<close>

lemma sampleIds_values:
  "sampleIds 0 = ''u0''" "sampleIds 1 = ''u1''" "sampleIds 2 = ''u2''" "sampleIds 3 = ''u3''"
  "sampleIds 4 = ''u4''" "sampleIds 5 = ''u5''"
  "sampleIds (Suc 0) = ''u1''" "sampleIds (Suc (Suc 0)) = ''u2''"
  "sampleIds (Suc (Suc (Suc 0))) = ''u3''"
  by (simp_all add: sampleIds_def showNat.simps)

lemma map_enumerate_Suc:
  "map (\<lambda>(i, x). g i x) (enumerate (Suc n) xs) = map (\<lambda>(i, x). g (Suc i) x) (enumerate n xs)"
  by (induction xs arbitrary: n) simp_all

lemma mapi_Cons: "mapi f (x # xs) = f x 0 # mapi (\<lambda>y i. f y (Suc i)) xs"
  unfolding mapi_def by (simp add: map_enumerate_Suc[of "\<lambda>i x. f x i"])

lemma mapi_Nil: "mapi f [] = []"
  by (simp add: mapi_def)

lemma example_made:
  "addText 0 ''speech'' (sampleIds 4) (fst (DEFAULT_PAGE sampleIds 0)) = Inr examplePage"
  by (simp add: addText_def DEFAULT_PAGE_def setPanel_def mapi_Cons mapi_Nil examplePage_def
      sampleIds_values upt_rec emptyPanel_def)

lemma example_saved:
  "saveJSON examplePage =
     JObj [(''layout'', JStr ''4''),
           (''panels'', JArr
              [JObj [(''id'', JStr ''u0''), (''bg'', JStr ''#ffffff''),
                     (''elements'', JArr [JObj (defaultText ''u4'' ''speech'')])],
               JObj [(''id'', JStr ''u1''), (''bg'', JStr ''#ffffff''), (''elements'', JArr [])],
               JObj [(''id'', JStr ''u2''), (''bg'', JStr ''#ffffff''), (''elements'', JArr [])],
               JObj [(''id'', JStr ''u3''), (''bg'', JStr ''#ffffff''), (''elements'', JArr [])]])]"
  by (simp add: saveJSON_def pageValue_def panelValue_def examplePage_def emptyPanel_def
      defaultText_def)

lemma example_element:
  "sanitizeElement sampleRuntime ''u5'' (JObj (defaultText ''u4'' ''speech'')) =
     Inr (defaultText ''u5'' ''speech'')"
  by (simp add: sanitizeElement_def sanitizeText_def defaultText_def bindE_def readProp_def
      field_def jsOr_def orElse_def nullish_def clamp_def mathMin_def mathMax_def oneOf_def)

lemma example_loaded:
  "loadJSON sampleRuntime sampleIds 5 (saveJSON examplePage) examplePage =
     (setPanel 0 (PatchElements [defaultText ''u5'' ''speech'']) examplePage, None)"
  unfolding example_saved
  by (simp add: loadJSON_def loadJSON_try_def readProp_def field_def inLAYOUTS_def LAYOUTS_def
      bindE_def loadPanel_def sampleIds_values example_element jsOr_def
      setPanel_def mapi_Cons mapi_Nil examplePage_def emptyPanel_def)

subsection \<open>When loading succeeds and when it fails\<close>

lemma primitive_toNumber: "primitive v \<Longrightarrow> \<exists>n. toNumber rt v = Inr n"
  by (cases v) simp_all

lemma primitive_toStr: "primitive v \<Longrightarrow> \<exists>s. toStr rt v = Inr s"
  by (cases v) simp_all

lemma primitive_clamp: "primitive v \<Longrightarrow> \<exists>n. clamp rt v a b = Inr n"
  using primitive_toNumber[of v rt] by (auto simp: clamp_def)

lemma primitive_orElse: "primitive v \<Longrightarrow> primitive d \<Longrightarrow> primitive (orElse v d)"
  by (simp add: orElse_def)

lemma primitive_jsOr: "primitive v \<Longrightarrow> primitive d \<Longrightarrow> primitive (jsOr v d)"
  by (simp add: jsOr_def)

lemma primitive_field: "list_all (\<lambda>(k, v). primitive v) kvs \<Longrightarrow> primitive (field kvs k)"
  by (induction kvs) (auto simp: field_def)

lemma plainEntry_readProp: "plainEntry el \<Longrightarrow> primitive (readProp el k)"
  by (cases el) (auto simp: plainEntry_def readProp_def primitive_field)

lemma plainEntry_getProp: "plainEntry el \<Longrightarrow> getProp el k = Inr (readProp el k)"
  by (cases el) (auto simp: plainEntry_def readProp_def nullish_def)

lemma plain_clamp: "plainEntry el \<Longrightarrow> \<exists>n. clamp rt (orElse (readProp el k) (num d)) a b = Inr n"
  by (rule primitive_clamp) (simp add: primitive_orElse plainEntry_readProp)

lemma plain_defaultImage:
  assumes "plainEntry el"
  shows "\<exists>d. defaultImage rt u s (Some [(''width'', readProp el ''w''), (''height'', readProp el ''h'')]) = Inr d"
proof -
  have "primitive (naturalOr (Some [(''width'', readProp el ''w''), (''height'', readProp el ''h'')]) ''width'' 300)"
       "primitive (naturalOr (Some [(''width'', readProp el ''w''), (''height'', readProp el ''h'')]) ''height'' 220)"
    using plainEntry_readProp[OF assms] by (simp_all add: naturalOr_def field_def primitive_jsOr)
  from primitive_toNumber[OF this(1), of rt] primitive_toNumber[OF this(2), of rt]
  show ?thesis by (auto simp: defaultImage_def bindE_def)
qed

lemma plain_sanitizeImage:
  assumes "plainEntry el"
  shows "\<exists>e. sanitizeImage rt u el = Inr e"
  using plain_defaultImage[OF assms, of rt u "jsOr (readProp el ''src'') (JStr [])"]
    plain_clamp[OF assms, of rt "''x''" 24 "Fin 0" "Fin 10000"]
    plain_clamp[OF assms, of rt "''y''" 24 "Fin 0" "Fin 10000"]
    plain_clamp[OF assms, of rt "''w''" 300 "Fin 10" "Fin 10000"]
    plain_clamp[OF assms, of rt "''h''" 220 "Fin 10" "Fin 10000"]
  unfolding sanitizeImage_def by (auto simp: bindE_def simp del: spread.simps)

lemma plain_sanitizeText:
  assumes "plainEntry el"
  shows "\<exists>e. sanitizeText rt u el = Inr e"
proof -
  have "\<exists>s. toStr rt (orElse (readProp el ''text'') (JStr [])) = Inr s"
    by (rule primitive_toStr) (simp add: primitive_orElse plainEntry_readProp[OF assms])
  then show ?thesis
  using 
    plain_clamp[OF assms, of rt "''x''" 24 "Fin 0" "Fin 10000"]
    plain_clamp[OF assms, of rt "''y''" 24 "Fin 0" "Fin 10000"]
    plain_clamp[OF assms, of rt "''w''" 200 "Fin 40" "Fin 10000"]
    plain_clamp[OF assms, of rt "''h''" 80 "Fin 30" "Fin 10000"]
    plain_clamp[OF assms, of rt "''fontSize''" 20 "Fin 8" "Fin 160"]
    plain_clamp[OF assms, of rt "''radius''" "if textSubtype el = ''speech'' then 16 else 8" "Fin 0" "Fin 64"]
    plain_clamp[OF assms, of rt "''weight''" "if textSubtype el = ''sfx'' then 800 else 600" "Fin 100" "Fin 900"]
  unfolding sanitizeText_def Let_def textSubtype_def[symmetric]
  by (auto simp: bindE_def simp del: spread.simps)
qed

lemma plain_sanitizeElement:
  assumes "plainEntry el"
  shows "\<exists>e. sanitizeElement rt u el = Inr e"
  using plain_sanitizeImage[OF assms, of rt u] plain_sanitizeText[OF assms, of rt u]
  unfolding sanitizeElement_def plainEntry_getProp[OF assms] by (simp add: bindE_def)

lemma plain_sanitizeElements:
  "list_all plainEntry els \<Longrightarrow>
     \<exists>es k'. sanitizeElements rt ids k els = Inr (es, k') \<and> length es = length els"
proof (induction els arbitrary: k)
  case Nil
  then show ?case by simp
next
  case (Cons el els)
  from Cons.prems have "plainEntry el" "list_all plainEntry els" by simp_all
  from plain_sanitizeElement[OF this(1), of rt "ids k"] obtain e where
    e: "sanitizeElement rt (ids k) el = Inr e" by blast
  from Cons.IH[OF \<open>list_all plainEntry els\<close>, of "Suc k"] obtain es k' where
    "sanitizeElements rt ids (Suc k) els = Inr (es, k')" "length es = length els" by blast
  then show ?case by (simp add: e bindE_def)
qed


lemma plain_loadPanel:
  assumes "plainPanel p"
  shows "\<exists>pan k'. loadPanel rt ids k p = Inr (pan, k')"
proof -
  from assms have nn: "\<not> nullish p" by (simp add: plainPanel_def)
  then have g: "getProp p ''id'' = Inr (readProp p ''id'')"
    by (cases p) (simp_all add: readProp_def nullish_def)
  show ?thesis
  proof (cases "readProp p ''elements''")
    case (JArr els)
    with assms have "list_all plainEntry els" by (simp add: plainPanel_def)
    from plain_sanitizeElements[OF this, of rt ids k] plain_sanitizeElements[OF this, of rt ids "Suc k"]
    obtain es k2 es' k2' where
      "sanitizeElements rt ids k els = Inr (es, k2)"
      "sanitizeElements rt ids (Suc k) els = Inr (es', k2')" by blast
    then show ?thesis unfolding loadPanel_def g
      by (simp add: bindE_def JArr)
  qed (simp_all add: loadPanel_def g bindE_def split: prod.splits)
qed

lemma plain_loadPanels:
  "list_all plainPanel ps \<Longrightarrow>
     \<exists>pans k'. loadPanels rt ids k ps = Inr (pans, k') \<and> length pans = length ps"
proof (induction ps arbitrary: k)
  case Nil
  then show ?case by simp
next
  case (Cons p ps)
  from Cons.prems have "plainPanel p" "list_all plainPanel ps" by simp_all
  from plain_loadPanel[OF this(1), of rt ids k] obtain pan k1 where
    e: "loadPanel rt ids k p = Inr (pan, k1)" by blast
  from Cons.IH[OF \<open>list_all plainPanel ps\<close>, of k1] obtain pans k' where
    "loadPanels rt ids k1 ps = Inr (pans, k')" "length pans = length ps" by blast
  then show ?case by (simp add: e bindE_def)
qed

lemma plain_loadJSON_try:
  assumes "plainDocument doc"
  shows "\<exists>p k'. loadJSON_try rt ids k doc = Inr (p, k') \<and>
           length (panels p) = length (arrayItems (readProp doc ''panels''))"
proof -
  from assms obtain ps where ps: "readProp doc ''panels'' = JArr ps" "list_all plainPanel ps"
    and t: "truthy doc" and l: "primitive (readProp doc ''layout'')"
    by (auto simp: plainDocument_def split: jsval.splits)
  from primitive_toStr[OF l, of rt] obtain known where
    k: "inLAYOUTS rt (readProp doc ''layout'') = Inr known"
    by (auto simp: inLAYOUTS_def bindE_def)
  from plain_loadPanels[OF ps(2), of rt ids k] obtain pans k' where
    "loadPanels rt ids k ps = Inr (pans, k')" "length pans = length ps" by blast
  then show ?thesis by (simp add: loadJSON_try_def t ps k bindE_def)
qed

lemma shape_loadJSON_try:
  "\<not> truthy doc \<or> \<not> isArray (readProp doc ''panels'') \<Longrightarrow>
     loadJSON_try rt ids k doc = Inl InvalidFormat"
  by (cases "readProp doc ''panels''") (auto simp: loadJSON_try_def)

lemma null_sanitizeElements:
  "list_ex nullish els \<Longrightarrow> \<exists>e. sanitizeElements rt ids k els = Inl e"
proof (induction els arbitrary: k)
  case Nil
  then show ?case by simp
next
  case (Cons el els)
  show ?case
  proof (cases "sanitizeElement rt (ids k) el")
    case (Inl e)
    then show ?thesis by (simp add: bindE_def)
  next
    case (Inr e)
    then have "\<not> nullish el"
      by (auto simp: sanitizeElement_def bindE_def nullish_def)
    with Cons.prems have "list_ex nullish els" by simp
    from Cons.IH[OF this, of "Suc k"] show ?thesis by (auto simp: Inr bindE_def)
  qed
qed

lemma broken_loadPanel:
  assumes "brokenPanel p"
  shows "\<exists>e. loadPanel rt ids k p = Inl e"
proof (cases "nullish p")
  case True
  then show ?thesis by (auto simp: loadPanel_def nullish_def bindE_def)
next
  case False
  with assms obtain els where els: "readProp p ''elements'' = JArr els" "list_ex nullish els"
    by (cases "readProp p ''elements''") (auto simp: brokenPanel_def)
  from False have g: "getProp p ''id'' = Inr (readProp p ''id'')"
    by (cases p) (simp_all add: readProp_def nullish_def)
  from null_sanitizeElements[OF els(2), of rt ids k] null_sanitizeElements[OF els(2), of rt ids "Suc k"]
  obtain e e' where
    "sanitizeElements rt ids k els = Inl e" "sanitizeElements rt ids (Suc k) els = Inl e'" by blast
  then show ?thesis unfolding loadPanel_def g
    by (simp add: bindE_def els)
qed

lemma broken_loadPanels:
  "list_ex brokenPanel ps \<Longrightarrow> \<exists>e. loadPanels rt ids k ps = Inl e"
proof (induction ps arbitrary: k)
  case Nil
  then show ?case by simp
next
  case (Cons p ps)
  show ?case
  proof (cases "loadPanel rt ids k p")
    case (Inl e)
    then show ?thesis by (simp add: bindE_def)
  next
    case (Inr r)
    obtain pan k1 where r: "r = (pan, k1)" by (cases r)
    from Inr broken_loadPanel[of p rt ids k] have "\<not> brokenPanel p" by auto
    with Cons.prems have "list_ex brokenPanel ps" by simp
    from Cons.IH[OF this, of k1] show ?thesis by (auto simp: Inr r bindE_def)
  qed
qed

lemma broken_loadJSON_try:
  assumes "list_ex brokenPanel (arrayItems (readProp doc ''panels''))"
  shows "\<exists>e. loadJSON_try rt ids k doc = Inl e"
proof -
  from assms obtain ps where ps: "readProp doc ''panels'' = JArr ps" "list_ex brokenPanel ps"
    by (cases "readProp doc ''panels''") auto
  from broken_loadPanels[OF ps(2), of rt ids k] obtain e where
    e: "loadPanels rt ids k ps = Inl e" by blast
  show ?thesis
    by (cases "inLAYOUTS rt (readProp doc ''layout'')") (simp_all add: loadJSON_try_def ps e bindE_def)
qed

text \<open>
  \<open>loadJSON\<close> lets no exception out: it either installs a new page without an alert
  or alerts and leaves the current page as it is. It alerts for every input that is
  falsy or whose \<open>panels\<close> is not an array, and also when a panel entry or an element
  entry is \<open>null\<close>. It installs a page, with one panel for each entry of \<open>panels\<close>,
  for every truthy input whose \<open>panels\<close> is an array of entries that are not \<open>null\<close>,
  whose element entries are not \<open>null\<close>, and whose layout and element fields are
  primitive values.
\<close>

lemma loadJSON_alerts_or_installs:
  "(\<not> truthy doc \<or> \<not> isArray (readProp doc ''panels'') \<longrightarrow>
      loadJSON rt ids k doc cur = (cur, Some ''Invalid JSON.'')) \<and>
   (list_ex brokenPanel (arrayItems (readProp doc ''panels'')) \<longrightarrow>
      loadJSON rt ids k doc cur = (cur, Some ''Invalid JSON.'')) \<and>
   (plainDocument doc \<longrightarrow>
      (\<exists>p. loadJSON rt ids k doc cur = (p, None) \<and>
           length (panels p) = length (arrayItems (readProp doc ''panels'')))) \<and>
   (loadJSON rt ids k doc cur = (cur, Some ''Invalid JSON.'') \<or>
    (\<exists>p. loadJSON rt ids k doc cur = (p, None)))"
proof (intro conjI impI)
  assume "\<not> truthy doc \<or> \<not> isArray (readProp doc ''panels'')"
  from shape_loadJSON_try[OF this, of rt ids k]
  show "loadJSON rt ids k doc cur = (cur, Some ''Invalid JSON.'')"
    by (simp add: loadJSON_def)
next
  assume "list_ex brokenPanel (arrayItems (readProp doc ''panels''))"
  from broken_loadJSON_try[OF this, of rt ids k]
  show "loadJSON rt ids k doc cur = (cur, Some ''Invalid JSON.'')"
    by (auto simp: loadJSON_def)
next
  assume "plainDocument doc"
  from plain_loadJSON_try[OF this, of rt ids k]
  show "\<exists>p. loadJSON rt ids k doc cur = (p, None) \<and>
           length (panels p) = length (arrayItems (readProp doc ''panels''))"
    by (auto simp: loadJSON_def)
next
  show "loadJSON rt ids k doc cur = (cur, Some ''Invalid JSON.'') \<or>
    (\<exists>p. loadJSON rt ids k doc cur = (p, None))"
    by (cases "loadJSON_try rt ids k doc") (auto simp: loadJSON_def)
qed

subsection \<open>The layout effect in closed form\<close>

lemma padPanels_eq:
  "padPanels ids k need ps =
     (ps @ map (\<lambda>i. emptyPanel (ids (k + i))) [0..<need - length ps], k + (need - length ps))"
proof (induction ids k need ps rule: padPanels.induct)
  case (1 ids k need ps)
  show ?case
  proof (cases "length ps < need")
    case True
    then obtain n where n: "need - length ps = Suc n" by (cases "need - length ps") auto
    then have m: "need - Suc (length ps) = n" by simp
    have "[0..<Suc n] = 0 # map Suc [0..<n]"
      by (simp only: map_Suc_upt upt_conv_Cons[OF zero_less_Suc])
    then show ?thesis
      using 1[OF True] True by (simp add: padPanels.simps[of ids k need ps] n m comp_def del: upt_Suc)
  next
    case False
    then show ?thesis by (simp add: padPanels.simps[of ids k need ps])
  qed
qed

lemma changeLayout_same: "layout p = JStr l \<Longrightarrow> changeLayout rt ids k l p = Inr (p, k)"
  by (simp add: changeLayout_def onLayout_def)

lemma changeLayout_eq:
  assumes "map_of LAYOUTS l = Some pr" and "layout p \<noteq> JStr l"
  shows "changeLayout rt ids k l p =
     Inr (p\<lparr>layout := JStr l,
             panels := take (preset_panels pr) (panels p) @
               map (\<lambda>i. emptyPanel (ids (k + i))) [0..<preset_panels pr - length (panels p)]\<rparr>,
          k + (preset_panels pr - length (panels p)))"
proof (cases "length (panels p) \<le> preset_panels pr")
  case True
  then show ?thesis
    by (simp add: changeLayout_def layoutEffect_def onLayout_def bindE_def assms padPanels_eq
        Let_def)
next
  case False
  then show ?thesis
    by (simp add: changeLayout_def layoutEffect_def onLayout_def bindE_def assms padPanels_eq
        Let_def)
qed

subsection \<open>Fields of patched elements, numbers of the example runtime\<close>

lemma field_setField: "field (setField k v el) k' = (if k' = k then v else field el k')"
  by (induction el) (auto simp: field_def)

lemma field_spread_other: "k \<notin> fst ` set patch \<Longrightarrow> field (spread el patch) k = field el k"
  by (induction patch arbitrary: el) (auto simp: field_setField)

lemma readDecimal_3: "readDecimal ''3'' = Fin 3" "readDecimal ''0'' = Fin 0"
  by (simp_all add: readDecimal_def isDigit_def digitValue_def)

subsection \<open>Patching the selected element\<close>






text \<open>
  The key \<open>]\<close> adds as the runtime does. In the example runtime \<open>2^53 + 1\<close> is
  rounded to \<open>2^53\<close>, so that an element whose \<open>z\<close> is \<open>2^53\<close> keeps its \<open>z\<close>.
\<close>

lemma z_beyond_2_53_absorbed:
  "onKey sampleRuntime False \<lparr>key = '']'', shiftKey = False\<rparr>
     \<lparr>panelIdx = 0, elId = JStr ''u6''\<rparr>
     (mutateElement 0 (JStr ''u6'') [(''z'', num 9007199254740992)] imagePage) =
   Inr (mutateElement 0 (JStr ''u6'') [(''z'', num 9007199254740992)] imagePage,
        \<lparr>panelIdx = 0, elId = JStr ''u6''\<rparr>)"
  by (simp add: onKey_def nullish_def findElement_def mutateElement_def imagePage_def
      exampleImage_def mapi_Cons mapi_Nil field_def orElse_def bindE_def sampleRuntime_def
      numPlus_def rounded_def roundSample_def)

subsection \<open>Mutations and the documented ranges\<close>

lemma list_all_mapi:
  "(\<And>x i. P x \<Longrightarrow> P (f x i)) \<Longrightarrow> list_all P xs \<Longrightarrow> list_all P (mapi f xs)"
  by (auto simp: mapi_def list_all_iff in_set_enumerate_eq)

lemma inRangePage_mapi:
  assumes "inRangePage p"
    and "\<And>pan i. list_all inRange (elements pan) \<Longrightarrow> list_all inRange (elements (f pan i))"
  shows "inRangePage (p\<lparr>panels := mapi f (panels p)\<rparr>)"
  using assms(1) unfolding inRangePage_def
  by (simp add: list_all_mapi[where P = "\<lambda>pan. list_all inRange (elements pan)", OF assms(2)])

lemma inRange_defaultText: "inRange (defaultText u subtype)"
  by (simp add: inRange_def fieldIn_def field_def defaultText_def)

lemma inRange_removeElement: "inRangePage p \<Longrightarrow> inRangePage (removeElement idx i p)"
  unfolding removeElement_def
  by (rule inRangePage_mapi) (auto simp: list_all_iff)

lemma inRange_setPanel_bg: "inRangePage p \<Longrightarrow> inRangePage (setPanel idx (PatchBg c) p)"
  unfolding setPanel_def
  by (rule inRangePage_mapi) auto

lemma inRange_setPanel_elements:
  "inRangePage p \<Longrightarrow> list_all inRange es \<Longrightarrow> inRangePage (setPanel idx (PatchElements es) p)"
  unfolding setPanel_def
  by (rule inRangePage_mapi) auto

lemma inRange_nth: "inRangePage p \<Longrightarrow> idx < length (panels p) \<Longrightarrow> list_all inRange (elements (panels p ! idx))"
  by (simp add: inRangePage_def list_all_length)

lemma inRange_addText:
  "inRangePage p \<Longrightarrow> addText idx subtype u p = Inr p' \<Longrightarrow> inRangePage p'"
  by (auto simp: addText_def inRange_setPanel_elements inRange_nth inRange_defaultText split: if_splits)

lemma inRange_spread:
  assumes "inRange el" and "list_all (\<lambda>(key, v). key \<notin> set rangedFields) patch"
  shows "inRange (spread el patch)"
proof -
  have "\<And>k. k \<in> set rangedFields \<Longrightarrow> k \<notin> fst ` set patch"
    using assms(2) by (auto simp: list_all_iff)
  then have "\<And>k. k \<in> set rangedFields \<Longrightarrow> field (spread el patch) k = field el k"
    by (simp add: field_spread_other)
  then have "inRange (spread el patch) = inRange el"
    unfolding inRange_def fieldIn_def by (simp add: rangedFields_def)
  then show ?thesis using assms(1) by simp
qed

lemma inRange_mutateElement:
  "inRangePage p \<Longrightarrow> list_all (\<lambda>(key, v). key \<notin> set rangedFields) patch \<Longrightarrow>
     inRangePage (mutateElement idx i patch p)"
  unfolding mutateElement_def
  by (rule inRangePage_mapi) (auto simp: list_all_iff inRange_spread)

lemma inRange_layoutEffect:
  assumes "inRangePage p" and "layoutEffect rt ids k p = Inr (p', k')"
  shows "inRangePage p'"
proof -
  from assms(2) obtain key where key: "toStr rt (layout p) = Inr key"
    by (auto simp: layoutEffect_def bindE_Inr)
  show ?thesis
  proof (cases "map_of LAYOUTS key")
    case None
    with assms key show ?thesis by (auto simp: layoutEffect_def bindE_def split: if_splits)
  next
    case (Some pr)
    with assms(2) key have "p' = p\<lparr>panels := take (preset_panels pr) (panels p) @
          map (\<lambda>i. emptyPanel (ids (k + i)))
            [0..<preset_panels pr - length (take (preset_panels pr) (panels p))]\<rparr>"
      by (auto simp: layoutEffect_def bindE_def padPanels_eq Let_def)
    moreover have "list_all (\<lambda>pan. list_all inRange (elements pan)) (take (preset_panels pr) (panels p))"
      using assms(1) by (auto simp: inRangePage_def list_all_iff dest: in_set_takeD)
    ultimately show ?thesis
      by (auto simp: inRangePage_def list_all_iff emptyPanel_def)
  qed
qed


lemma mathMin_Fin: "mathMin (Fin a) (Fin b) = Fin (min a b)"
  by (simp add: mathMin_def min_def)

lemma inRange_defaultImage_None:
  "defaultImage rt u s None = Inr img \<Longrightarrow> inRange img"
  by (auto simp: defaultImage_def bindE_def naturalOr_def jsOr_def mathMin_Fin
      inRange_def fieldIn_def field_def)

lemma inRange_defaultImage_Some:
  assumes "10 \<le> nw" and "10 \<le> nh"
    and "defaultImage rt u s (Some [(''width'', num (of_nat nw)), (''height'', num (of_nat nh))]) = Inr img"
  shows "inRange img"
proof -
  have w: "toNumber rt (naturalOr (Some [(''width'', num (of_nat nw)), (''height'', num (of_nat nh))])
      ''width'' 300) = Inr (Fin (of_nat nw))"
    and h: "toNumber rt (naturalOr (Some [(''width'', num (of_nat nw)), (''height'', num (of_nat nh))])
      ''height'' 220) = Inr (Fin (of_nat nh))"
    using assms(1,2) by (auto simp: naturalOr_def jsOr_def field_def)
  have b: "(10::rat) \<le> of_nat nw" "(10::rat) \<le> of_nat nh"
    using assms(1,2) by (metis of_nat_le_iff of_nat_numeral)+
  from assms(3) have "img = [(''id'', JStr u), (''type'', JStr ''image''), (''src'', s),
            (''x'', num 24), (''y'', num 24),
            (''w'', num (min 300 (of_nat nw))), (''h'', num (min 220 (of_nat nh))),
            (''z'', num 0), (''rotate'', num 0)]"
    unfolding defaultImage_def w h by (simp add: bindE_def mathMin_Fin)
  then show ?thesis using b
    by (simp add: inRange_def fieldIn_def field_def min_le_iff_disj)
qed

lemma inRange_addImage_None:
  "inRangePage p \<Longrightarrow> addImage rt idx url None u p = Inr p' \<Longrightarrow> inRangePage p'"
  by (auto simp: addImage_def bindE_Inr inRange_setPanel_elements inRange_nth
      inRange_defaultImage_None split: if_splits)

lemma inRange_addImage_Some:
  "inRangePage p \<Longrightarrow> 10 \<le> nw \<Longrightarrow> 10 \<le> nh \<Longrightarrow>
     addImage rt idx url (Some (nw, nh)) u p = Inr p' \<Longrightarrow> inRangePage p'"
  by (auto simp: addImage_def bindE_Inr inRange_setPanel_elements inRange_nth
      inRange_defaultImage_Some split: if_splits)

lemma examplePage_inRange: "inRangePage examplePage"
  by (simp add: inRangePage_def examplePage_def emptyPanel_def inRange_defaultText)

lemma examplePage_panel0:
  "panels examplePage \<noteq> []"
  "elements (panels examplePage ! 0) = [defaultText ''u4'' ''speech'']"
  by (simp_all add: examplePage_def)

section \<open>The claims\<close>

text \<open>
  Claim C3. The sanitizer is to bring every numeric field with a documented range into
  that range, whatever the input value, values that are not numbers included. The code
  clamps with \<^verbatim>\<open>Math.max(a, Math.min(b, v))\<close>, which returns \<open>NaN\<close> when \<open>v\<close>
  converts to \<open>NaN\<close>: the image element \<^verbatim>\<open>{"type": "image", "x": "abc"}\<close> of a
  loaded file is sanitized to an element whose \<open>x\<close> is \<open>NaN\<close>, outside \<open>[0, 10000]\<close>.
  (Lemma \<open>sanitize_inRangeOrNaN\<close> above is what the code does guarantee.)
\<close>

theorem C3_sanitize_keeps_NaN:
  "sanitizeElement sampleRuntime ''u9'' (JObj [(''type'', JStr ''image''), (''x'', JStr ''abc'')]) =
     Inr [(''id'', JStr ''u9''), (''type'', JStr ''image''), (''src'', JStr []),
          (''x'', JNum NaN), (''y'', num 24), (''w'', num 300), (''h'', num 220),
          (''z'', num 0), (''rotate'', num 0)]"
  by (simp add: sanitizeElement_def sanitizeImage_def defaultImage_def bindE_def readProp_def
      field_def jsOr_def orElse_def nullish_def clamp_def naturalOr_def mathMin_def mathMax_def
      sampleRuntime_def readDecimal_def isDigit_def)

text \<open>
  Claim C10. The sanitizer neither clamps nor validates \<open>z\<close> and \<open>rotate\<close>: the
  sanitized element carries the value of the input, whatever it is (negative,
  fractional, huge, not even a number), and only an absent value is replaced by the
  default: \<open>z\<close> by 0 for an image and by 1 for a text, \<open>rotate\<close> by 0. Absent is what
  the operator \<^verbatim>\<open>??\<close> takes as absent: \<open>undefined\<close> (no such field) and \<open>null\<close>.
\<close>

theorem C10_z_rotate_unvalidated:
  assumes "sanitizeElement rt u el = Inr e"
  shows "field e ''z'' =
           (if nullish (readProp el ''z'')
            then (if readProp el ''type'' = JStr ''image'' then num 0 else num 1)
            else readProp el ''z'') \<and>
         field e ''rotate'' =
           (if nullish (readProp el ''rotate'') then num 0 else readProp el ''rotate'')"
proof -
  from sanitizeElement_cases[OF assms] show ?thesis
  proof (elim disjE conjE)
    assume t: "readProp el ''type'' = JStr ''image''" and "sanitizeImage rt u el = Inr e"
    from sanitizeImage_Inr[OF this(2)] obtain x y w h where
      e: "e = [(''id'', JStr u), (''type'', JStr ''image''),
          (''src'', jsOr (readProp el ''src'') (JStr [])),
          (''x'', JNum x), (''y'', JNum y), (''w'', JNum w), (''h'', JNum h),
          (''z'', orElse (readProp el ''z'') (num 0)),
          (''rotate'', orElse (readProp el ''rotate'') (num 0))]" by blast
    show ?thesis by (simp add: e field_def orElse_def t)
  next
    assume t: "readProp el ''type'' \<noteq> JStr ''image''" and "sanitizeText rt u el = Inr e"
    from sanitizeText_Inr[OF this(2)] obtain tx x y w h fs r wt where
      e: "e = [(''id'', JStr u), (''type'', JStr ''text''), (''subtype'', JStr (textSubtype el)),
          (''text'', JStr (take 2000 tx)),
          (''x'', JNum x), (''y'', JNum y), (''w'', JNum w), (''h'', JNum h),
          (''fontSize'', JNum fs),
          (''color'', jsOr (readProp el ''color'') (JStr ''#111827'')),
          (''bg'', jsOr (readProp el ''bg'')
                    (JStr (if textSubtype el = ''caption'' then ''#fef3c7'' else ''#ffffffcc''))),
          (''rotate'', orElse (readProp el ''rotate'') (num 0)),
          (''z'', orElse (readProp el ''z'') (num 1)),
          (''align'', JStr (oneOf [''left'', ''center'', ''right''] (readProp el ''align'') ''left'')),
          (''radius'', JNum r), (''weight'', JNum wt)]" by blast
    show ?thesis by (simp add: e field_def orElse_def t)
  qed
qed

theorem C10_z_rotate_unvalidated_witness:
  "sanitizeElement sampleRuntime ''u1''
     (JObj [(''type'', JStr ''image''), (''z'', num (- 5 / 2)), (''rotate'', num 100000)]) =
   Inr [(''id'', JStr ''u1''), (''type'', JStr ''image''), (''src'', JStr []),
          (''x'', num 24), (''y'', num 24), (''w'', num 300), (''h'', num 220),
          (''z'', num (- 5 / 2)), (''rotate'', num 100000)] \<and>
   (field [(''id'', JStr ''u1''), (''type'', JStr ''image''), (''src'', JStr []),
          (''x'', num 24), (''y'', num 24), (''w'', num 300), (''h'', num 220),
          (''z'', num (- 5 / 2)), (''rotate'', num 100000)] ''z'' =
      (if nullish (readProp (JObj [(''type'', JStr ''image''), (''z'', num (- 5 / 2)),
                                   (''rotate'', num 100000)]) ''z'')
       then (if readProp (JObj [(''type'', JStr ''image''), (''z'', num (- 5 / 2)),
                                (''rotate'', num 100000)]) ''type'' = JStr ''image''
             then num 0 else num 1)
       else readProp (JObj [(''type'', JStr ''image''), (''z'', num (- 5 / 2)),
                            (''rotate'', num 100000)]) ''z'') \<and>
    field [(''id'', JStr ''u1''), (''type'', JStr ''image''), (''src'', JStr []),
          (''x'', num 24), (''y'', num 24), (''w'', num 300), (''h'', num 220),
          (''z'', num (- 5 / 2)), (''rotate'', num 100000)] ''rotate'' =
      (if nullish (readProp (JObj [(''type'', JStr ''image''), (''z'', num (- 5 / 2)),
                                   (''rotate'', num 100000)]) ''rotate'')
       then num 0
       else readProp (JObj [(''type'', JStr ''image''), (''z'', num (- 5 / 2)),
                            (''rotate'', num 100000)]) ''rotate''))"
proof -
  have h: "sanitizeElement sampleRuntime ''u1''
     (JObj [(''type'', JStr ''image''), (''z'', num (- 5 / 2)), (''rotate'', num 100000)]) =
   Inr [(''id'', JStr ''u1''), (''type'', JStr ''image''), (''src'', JStr []),
          (''x'', num 24), (''y'', num 24), (''w'', num 300), (''h'', num 220),
          (''z'', num (- 5 / 2)), (''rotate'', num 100000)]"
    by (simp add: sanitizeElement_def sanitizeImage_def defaultImage_def bindE_def readProp_def
      field_def jsOr_def orElse_def nullish_def clamp_def naturalOr_def mathMin_def mathMax_def)
  show ?thesis by (rule conjI [OF h C10_z_rotate_unvalidated [OF h]])
qed

text \<open>
  Claim C6. A loaded layout is to be kept exactly when it is one of the keys \<open>1\<close>,
  \<open>2h\<close>, \<open>2v\<close>, \<open>4\<close>, and replaced by \<open>4\<close> otherwise. The code tests
  \<^verbatim>\<open>doc.layout in LAYOUTS\<close>, and \<^verbatim>\<open>in\<close> also finds what \<open>LAYOUTS\<close> inherits from
  \<^verbatim>\<open>Object.prototype\<close>: the file \<^verbatim>\<open>{"layout": "constructor", "panels": []}\<close> is
  loaded with the layout \<open>constructor\<close>, which is no layout key.
\<close>

theorem C6_inherited_name_kept_as_layout:
  "loadJSON_try sampleRuntime sampleIds 0
     (JObj [(''layout'', JStr ''constructor''), (''panels'', JArr [])]) =
   Inr (\<lparr>layout = JStr ''constructor'', panels = []\<rparr>, 0)"
  by (simp add: loadJSON_try_def readProp_def field_def inLAYOUTS_def bindE_def
      objectPrototypeKeys_def LAYOUTS_def)

text \<open>
  Claim C1. Sanitizing is to be idempotent and a save followed by a load a round trip
  that changes no field of any element, its \<open>id\<close> included. \<open>sanitizeElement\<close> never
  reads \<^verbatim>\<open>el.id\<close>: every element gets a new \<^verbatim>\<open>uid()\<close> (the panels keep theirs,
  \<^verbatim>\<open>p.id || uid()\<close>). So the page made by a new document and \<open>addText\<close>, saved and
  loaded again, comes back with another id for its element (\<open>u5\<close> for \<open>u4\<close>), and
  sanitizing that element alone does the same. Lemma \<open>resanitize\<close> shows that the
  \<open>id\<close> is all that changes.
\<close>

theorem C1_reload_renews_element_id:
  "addText 0 ''speech'' (sampleIds 4) (fst (DEFAULT_PAGE sampleIds 0)) = Inr examplePage \<and>
   loadJSON sampleRuntime sampleIds 5 (saveJSON examplePage) examplePage =
     (setPanel 0 (PatchElements [defaultText ''u5'' ''speech'']) examplePage, None) \<and>
   sanitizeElement sampleRuntime ''u5'' (JObj (defaultText ''u4'' ''speech'')) =
     Inr (defaultText ''u5'' ''speech'') \<and>
   field (defaultText ''u4'' ''speech'') ''id'' = JStr ''u4'' \<and>
   field (defaultText ''u5'' ''speech'') ''id'' = JStr ''u5''"
  using example_made example_loaded example_element
  by (simp add: defaultText_def field_def)

text \<open>
  Claim C2. Sanitizing is never to throw: a Document for every truthy input whose
  \<open>panels\<close> is an array, whatever the array holds, \<open>null\<close> entries included. The
  code repairs a panel entry that is a number (\<^verbatim>\<open>p.id\<close>, \<^verbatim>\<open>p.bg\<close> and
  \<^verbatim>\<open>p.elements\<close> are \<open>undefined\<close> and the defaults take their place) and an
  element entry that is a number, but on a panel entry \<open>null\<close> the read of \<^verbatim>\<open>p.id\<close>
  throws a TypeError, and on an element entry \<open>null\<close> the read of \<^verbatim>\<open>el.type\<close>
  does; the \<^verbatim>\<open>try\<close> of \<open>loadJSON\<close> catches it and answers as for a wrong shape.
  So \<^verbatim>\<open>{"panels": [null]}\<close> and \<^verbatim>\<open>{"panels": [{"elements": [null]}]}\<close> give the
  alert and leave the page as it is, while \<^verbatim>\<open>{"panels": [5]}\<close> is loaded as one
  default panel and \<^verbatim>\<open>{"panels": [{"elements": [7]}]}\<close> as a panel with one default
  speech bubble whose text is empty.
\<close>

theorem C2_null_entry_rejected:
  "truthy (JObj [(''panels'', JArr [JNull])]) \<and>
   isArray (readProp (JObj [(''panels'', JArr [JNull])]) ''panels'') \<and>
   loadJSON sampleRuntime sampleIds 0 (JObj [(''panels'', JArr [JNull])]) examplePage =
     (examplePage, Some ''Invalid JSON.'') \<and>
   loadJSON sampleRuntime sampleIds 0
       (JObj [(''panels'', JArr [JObj [(''elements'', JArr [JNull])]])]) examplePage =
     (examplePage, Some ''Invalid JSON.'') \<and>
   loadJSON sampleRuntime sampleIds 0 (JObj [(''panels'', JArr [num 5])]) examplePage =
     (\<lparr>layout = JStr ''4'',
       panels = [\<lparr>panel_id = JStr ''u0'', bg = JStr ''#ffffff'', elements = []\<rparr>]\<rparr>, None) \<and>
   loadJSON sampleRuntime sampleIds 0
       (JObj [(''panels'', JArr [JObj [(''elements'', JArr [num 7])]])]) examplePage =
     (\<lparr>layout = JStr ''4'',
       panels = [\<lparr>panel_id = JStr ''u0'', bg = JStr ''#ffffff'',
                   elements = [setField ''text'' (JStr []) (defaultText ''u1'' ''speech'')]\<rparr>]\<rparr>,
      None)"
proof -
  have ids: "sampleIds 0 = ''u0''" "sampleIds (Suc 0) = ''u1''"
    by (simp_all add: sampleIds_def showNat.simps)
  have a: "loadJSON sampleRuntime sampleIds 0 (JObj [(''panels'', JArr [JNull])]) examplePage =
     (examplePage, Some ''Invalid JSON.'')"
    by (simp add: loadJSON_def loadJSON_try_def readProp_def field_def inLAYOUTS_def bindE_def
      objectPrototypeKeys_def LAYOUTS_def loadPanel_def)
  have b: "loadJSON sampleRuntime sampleIds 0
       (JObj [(''panels'', JArr [JObj [(''elements'', JArr [JNull])]])]) examplePage =
     (examplePage, Some ''Invalid JSON.'')"
    by (simp add: loadJSON_def loadJSON_try_def readProp_def field_def inLAYOUTS_def bindE_def
      objectPrototypeKeys_def LAYOUTS_def loadPanel_def sanitizeElement_def)
  have c: "loadJSON sampleRuntime sampleIds 0 (JObj [(''panels'', JArr [num 5])]) examplePage =
     (\<lparr>layout = JStr ''4'',
       panels = [\<lparr>panel_id = JStr ''u0'', bg = JStr ''#ffffff'', elements = []\<rparr>]\<rparr>, None)"
    by (simp add: loadJSON_def loadJSON_try_def readProp_def field_def inLAYOUTS_def bindE_def
      objectPrototypeKeys_def LAYOUTS_def loadPanel_def jsOr_def ids)
  have d: "loadJSON sampleRuntime sampleIds 0
       (JObj [(''panels'', JArr [JObj [(''elements'', JArr [num 7])]])]) examplePage =
     (\<lparr>layout = JStr ''4'',
       panels = [\<lparr>panel_id = JStr ''u0'', bg = JStr ''#ffffff'',
                   elements = [setField ''text'' (JStr []) (defaultText ''u1'' ''speech'')]\<rparr>]\<rparr>,
      None)"
    by (simp add: loadJSON_def loadJSON_try_def readProp_def field_def inLAYOUTS_def bindE_def
      objectPrototypeKeys_def LAYOUTS_def loadPanel_def jsOr_def ids sanitizeElement_def
      sanitizeText_def oneOf_def orElse_def nullish_def clamp_def mathMin_def mathMax_def
      defaultText_def Let_def)
  show ?thesis
    by (intro conjI; (rule a b c d)?) (simp_all add: readProp_def field_def)
qed

text \<open>
  Claim C5. The layout-sync rule. \<open>changeLayout\<close> is the choice of a layout \<open>l\<close>, a
  key of \<open>LAYOUTS\<close>, with the effect that follows it. When \<open>l\<close> is not the layout
  that the page had, the page has afterwards exactly as many panels as the preset says;
  the panels at the indices that the old and the new sequence share are the old panels
  themselves; what was beyond the count is cut from the tail; what is missing is filled
  with new panels, each with the next fresh id, the background \<^verbatim>\<open>#ffffff\<close> and no
  element. When \<open>l\<close> is the layout that the page had, the effect does not run and
  nothing changes. Going from layout \<open>4\<close> to \<open>1\<close> and back to \<open>4\<close> keeps panel 0
  as it was and puts three new empty white panels at the indices 1 to 3.
\<close>

theorem C5_layout_sync:
  assumes "map_of LAYOUTS l = Some pr"
  shows "(layout p \<noteq> JStr l \<longrightarrow>
           (\<exists>p'. changeLayout rt ids k l p =
                    Inr (p', k + (preset_panels pr - length (panels p))) \<and>
              layout p' = JStr l \<and>
              length (panels p') = preset_panels pr \<and>
              (\<forall>i. i < length (panels p) \<and> i < preset_panels pr \<longrightarrow>
                   panels p' ! i = panels p ! i) \<and>
              (\<forall>i. length (panels p) \<le> i \<and> i < preset_panels pr \<longrightarrow>
                   panels p' ! i =
                     \<lparr>panel_id = JStr (ids (k + (i - length (panels p)))),
                      bg = JStr ''#ffffff'', elements = []\<rparr>))) \<and>
         (layout p = JStr l \<longrightarrow> changeLayout rt ids k l p = Inr (p, k)) \<and>
         (layout p = JStr ''4'' \<and> panels p \<noteq> [] \<longrightarrow>
           (\<exists>p1 p2. changeLayout rt ids k ''1'' p = Inr (p1, k) \<and>
              panels p1 = [panels p ! 0] \<and>
              changeLayout rt ids k ''4'' p1 = Inr (p2, k + 3) \<and>
              panels p2 =
                [panels p ! 0,
                 \<lparr>panel_id = JStr (ids k), bg = JStr ''#ffffff'', elements = []\<rparr>,
                 \<lparr>panel_id = JStr (ids (k + 1)), bg = JStr ''#ffffff'', elements = []\<rparr>,
                 \<lparr>panel_id = JStr (ids (k + 2)), bg = JStr ''#ffffff'', elements = []\<rparr>]))"
proof (intro conjI impI)
  assume ch: "layout p \<noteq> JStr l"
  let ?need = "preset_panels pr"
  let ?ps = "take ?need (panels p) @
     map (\<lambda>i. emptyPanel (ids (k + i))) [0..<?need - length (panels p)]"
  have len: "length ?ps = ?need" by auto
  have old: "\<forall>i. i < length (panels p) \<and> i < ?need \<longrightarrow> ?ps ! i = panels p ! i"
    by (auto simp: nth_append)
  have new: "\<forall>i. length (panels p) \<le> i \<and> i < ?need \<longrightarrow>
      ?ps ! i = \<lparr>panel_id = JStr (ids (k + (i - length (panels p)))),
                      bg = JStr ''#ffffff'', elements = []\<rparr>"
    by (auto simp: nth_append min_def emptyPanel_def)
  show "\<exists>p'. changeLayout rt ids k l p =
                    Inr (p', k + (preset_panels pr - length (panels p))) \<and>
              layout p' = JStr l \<and>
              length (panels p') = preset_panels pr \<and>
              (\<forall>i. i < length (panels p) \<and> i < preset_panels pr \<longrightarrow>
                   panels p' ! i = panels p ! i) \<and>
              (\<forall>i. length (panels p) \<le> i \<and> i < preset_panels pr \<longrightarrow>
                   panels p' ! i =
                     \<lparr>panel_id = JStr (ids (k + (i - length (panels p)))),
                      bg = JStr ''#ffffff'', elements = []\<rparr>)"
    unfolding changeLayout_eq[OF assms ch] using len old new by simp
next
  assume "layout p = JStr l"
  then show "changeLayout rt ids k l p = Inr (p, k)" by (rule changeLayout_same)
next
  assume a4: "layout p = JStr ''4'' \<and> panels p \<noteq> []"
  then have ne: "panels p \<noteq> []" and l1: "layout p \<noteq> JStr ''1''" by simp_all
  have one: "map_of LAYOUTS ''1'' =
      Some \<lparr>name = ''1 Panel'', grid = ''grid-cols-1'', preset_panels = 1, vertical = False\<rparr>"
    by (simp add: LAYOUTS_def)
  have four: "map_of LAYOUTS ''4'' =
      Some \<lparr>name = ''4 Panels (2x2)'', grid = ''md:grid-cols-2'', preset_panels = 4,
             vertical = False\<rparr>"
    by (simp add: LAYOUTS_def)
  define p1 where "p1 = p\<lparr>layout := JStr ''1'', panels := [panels p ! 0]\<rparr>"
  define p2 where "p2 = p1\<lparr>layout := JStr ''4'',
      panels := [panels p ! 0, emptyPanel (ids k), emptyPanel (ids (k + 1)),
                 emptyPanel (ids (k + 2))]\<rparr>"
  have u: "[0..<3] = [0, Suc 0, Suc (Suc 0)]"
    by (simp add: upt_rec)
  have l4: "layout p1 \<noteq> JStr ''4''" by (simp add: p1_def)
  have a: "changeLayout rt ids k ''1'' p = Inr (p1, k)"
    unfolding changeLayout_eq[OF one l1] p1_def using ne by (cases "panels p") simp_all
  have b: "changeLayout rt ids k ''4'' p1 = Inr (p2, k + 3)"
    unfolding changeLayout_eq[OF four l4] unfolding p1_def p2_def by (simp add: u del: upt_Suc)
  have c: "panels p2 = [panels p ! 0,
                 \<lparr>panel_id = JStr (ids k), bg = JStr ''#ffffff'', elements = []\<rparr>,
                 \<lparr>panel_id = JStr (ids (k + 1)), bg = JStr ''#ffffff'', elements = []\<rparr>,
                 \<lparr>panel_id = JStr (ids (k + 2)), bg = JStr ''#ffffff'', elements = []\<rparr>]"
    by (simp add: p2_def emptyPanel_def)
  have d: "panels p1 = [panels p ! 0]" by (simp add: p1_def)
  show "\<exists>p1 p2. changeLayout rt ids k ''1'' p = Inr (p1, k) \<and>
              panels p1 = [panels p ! 0] \<and>
              changeLayout rt ids k ''4'' p1 = Inr (p2, k + 3) \<and>
              panels p2 =
                [panels p ! 0,
                 \<lparr>panel_id = JStr (ids k), bg = JStr ''#ffffff'', elements = []\<rparr>,
                 \<lparr>panel_id = JStr (ids (k + 1)), bg = JStr ''#ffffff'', elements = []\<rparr>,
                 \<lparr>panel_id = JStr (ids (k + 2)), bg = JStr ''#ffffff'', elements = []\<rparr>]"
    using a b c d by blast
qed

theorem C5_layout_sync_witness:
  "map_of LAYOUTS ''2h'' =
     Some \<lparr>name = ''2 Panels (Horizontal)'', grid = ''md:grid-cols-2'', preset_panels = 2,
            vertical = False\<rparr> \<and>
   layout examplePage \<noteq> JStr ''2h'' \<and>
   (\<exists>p'. changeLayout sampleRuntime sampleIds 5 ''2h'' examplePage = Inr (p', 5) \<and>
      layout p' = JStr ''2h'' \<and> length (panels p') = 2 \<and>
      panels p' ! 0 = panels examplePage ! 0 \<and> panels p' ! 1 = panels examplePage ! 1) \<and>
   layout imagePage \<noteq> JStr ''2h'' \<and>
   (\<exists>p'. changeLayout sampleRuntime sampleIds 7 ''2h'' imagePage = Inr (p', 8) \<and>
      layout p' = JStr ''2h'' \<and> length (panels p') = 2 \<and>
      panels p' ! 0 = panels imagePage ! 0 \<and>
      panels p' ! 1 = \<lparr>panel_id = JStr ''u7'', bg = JStr ''#ffffff'', elements = []\<rparr>) \<and>
   map_of LAYOUTS ''4'' =
     Some \<lparr>name = ''4 Panels (2x2)'', grid = ''md:grid-cols-2'', preset_panels = 4,
            vertical = False\<rparr> \<and>
   layout examplePage = JStr ''4'' \<and>
   changeLayout sampleRuntime sampleIds 5 ''4'' examplePage = Inr (examplePage, 5) \<and>
   panels examplePage \<noteq> [] \<and>
   (\<exists>p1 p2. changeLayout sampleRuntime sampleIds 5 ''1'' examplePage = Inr (p1, 5) \<and>
      panels p1 = [panels examplePage ! 0] \<and>
      changeLayout sampleRuntime sampleIds 5 ''4'' p1 = Inr (p2, 8) \<and>
      panels p2 =
        [\<lparr>panel_id = JStr ''u0'', bg = JStr ''#ffffff'',
           elements = [defaultText ''u4'' ''speech'']\<rparr>,
         \<lparr>panel_id = JStr ''u5'', bg = JStr ''#ffffff'', elements = []\<rparr>,
         \<lparr>panel_id = JStr ''u6'', bg = JStr ''#ffffff'', elements = []\<rparr>,
         \<lparr>panel_id = JStr ''u7'', bg = JStr ''#ffffff'', elements = []\<rparr>])"
proof -
  have h2: "map_of LAYOUTS ''2h'' =
     Some \<lparr>name = ''2 Panels (Horizontal)'', grid = ''md:grid-cols-2'', preset_panels = 2,
            vertical = False\<rparr>"
    by (simp add: LAYOUTS_def)
  have h4: "map_of LAYOUTS ''4'' =
     Some \<lparr>name = ''4 Panels (2x2)'', grid = ''md:grid-cols-2'', preset_panels = 4,
            vertical = False\<rparr>"
    by (simp add: LAYOUTS_def)
  have n2: "layout examplePage \<noteq> JStr ''2h''" and e4: "layout examplePage = JStr ''4''"
    and ne: "panels examplePage \<noteq> []" and len: "length (panels examplePage) = 4"
    and p0: "panels examplePage ! 0 = \<lparr>panel_id = JStr ''u0'', bg = JStr ''#ffffff'',
           elements = [defaultText ''u4'' ''speech'']\<rparr>"
    by (simp_all add: examplePage_def)
  have ids: "sampleIds 5 = ''u5''" "sampleIds (5 + 1) = ''u6''" "sampleIds (5 + 2) = ''u7''"
    by (simp_all add: sampleIds_def showNat.simps)
  note A = C5_layout_sync [OF h2, where rt = sampleRuntime and ids = sampleIds and k = 5
      and p = examplePage]
  note B = C5_layout_sync [OF h4, where rt = sampleRuntime and ids = sampleIds and k = 5
      and p = examplePage]
  from A [THEN conjunct1, THEN mp, OF n2] obtain p' where
    a1: "changeLayout sampleRuntime sampleIds 5 ''2h'' examplePage =
           Inr (p', 5 + (preset_panels \<lparr>name = ''2 Panels (Horizontal)'',
             grid = ''md:grid-cols-2'', preset_panels = 2, vertical = False\<rparr> -
             length (panels examplePage)))"
    and a2: "layout p' = JStr ''2h''"
    and a3: "length (panels p') = preset_panels \<lparr>name = ''2 Panels (Horizontal)'',
             grid = ''md:grid-cols-2'', preset_panels = 2, vertical = False\<rparr>"
    and a4: "\<forall>i. i < length (panels examplePage) \<and> i < preset_panels \<lparr>name = ''2 Panels (Horizontal)'',
             grid = ''md:grid-cols-2'', preset_panels = 2, vertical = False\<rparr> \<longrightarrow>
                   panels p' ! i = panels examplePage ! i"
    by (elim exE conjE)
  from a1 have a1': "changeLayout sampleRuntime sampleIds 5 ''2h'' examplePage = Inr (p', 5)"
    by (simp add: len)
  from a3 have a3': "length (panels p') = 2" by simp
  from a4 [rule_format, of 0] a4 [rule_format, of 1]
  have a4': "panels p' ! 0 = panels examplePage ! 0" "panels p' ! 1 = panels examplePage ! 1"
    by (simp_all add: len)
  have n1: "layout imagePage \<noteq> JStr ''2h''" and len1: "length (panels imagePage) = 1"
    by (simp_all add: imagePage_def)
  have id7: "sampleIds 7 = ''u7''" by (simp add: sampleIds_def showNat.simps)
  note C = C5_layout_sync [OF h2, where rt = sampleRuntime and ids = sampleIds and k = 7
      and p = imagePage]
  from C [THEN conjunct1, THEN mp, OF n1] obtain q where
    q1: "changeLayout sampleRuntime sampleIds 7 ''2h'' imagePage =
           Inr (q, 7 + (preset_panels \<lparr>name = ''2 Panels (Horizontal)'',
             grid = ''md:grid-cols-2'', preset_panels = 2, vertical = False\<rparr> -
             length (panels imagePage)))"
    and q2: "layout q = JStr ''2h''"
    and q3: "length (panels q) = preset_panels \<lparr>name = ''2 Panels (Horizontal)'',
             grid = ''md:grid-cols-2'', preset_panels = 2, vertical = False\<rparr>"
    and q4: "\<forall>i. i < length (panels imagePage) \<and> i < preset_panels \<lparr>name = ''2 Panels (Horizontal)'',
             grid = ''md:grid-cols-2'', preset_panels = 2, vertical = False\<rparr> \<longrightarrow>
                   panels q ! i = panels imagePage ! i"
    and q5: "\<forall>i. length (panels imagePage) \<le> i \<and> i < preset_panels \<lparr>name = ''2 Panels (Horizontal)'',
             grid = ''md:grid-cols-2'', preset_panels = 2, vertical = False\<rparr> \<longrightarrow>
                   panels q ! i =
                     \<lparr>panel_id = JStr (sampleIds (7 + (i - length (panels imagePage)))),
                      bg = JStr ''#ffffff'', elements = []\<rparr>"
    by (elim exE conjE)
  from q1 have q1': "changeLayout sampleRuntime sampleIds 7 ''2h'' imagePage = Inr (q, 8)"
    by (simp add: len1)
  from q3 have q3': "length (panels q) = 2" by simp
  from q4 [rule_format, of 0] have q4': "panels q ! 0 = panels imagePage ! 0"
    by (simp add: len1)
  from q5 [rule_format, of 1]
  have q5': "panels q ! 1 = \<lparr>panel_id = JStr ''u7'', bg = JStr ''#ffffff'', elements = []\<rparr>"
    by (simp add: len1 id7)
  have grown: "\<exists>p'. changeLayout sampleRuntime sampleIds 7 ''2h'' imagePage = Inr (p', 8) \<and>
      layout p' = JStr ''2h'' \<and> length (panels p') = 2 \<and>
      panels p' ! 0 = panels imagePage ! 0 \<and>
      panels p' ! 1 = \<lparr>panel_id = JStr ''u7'', bg = JStr ''#ffffff'', elements = []\<rparr>"
    using q1' q2 q3' q4' q5' by (intro exI [of _ q] conjI)
  have first: "\<exists>p'. changeLayout sampleRuntime sampleIds 5 ''2h'' examplePage = Inr (p', 5) \<and>
      layout p' = JStr ''2h'' \<and> length (panels p') = 2 \<and>
      panels p' ! 0 = panels examplePage ! 0 \<and> panels p' ! 1 = panels examplePage ! 1"
    using a1' a2 a3' a4' by (intro exI [of _ p'] conjI)
  have second: "changeLayout sampleRuntime sampleIds 5 ''4'' examplePage = Inr (examplePage, 5)"
    by (rule B [THEN conjunct2, THEN conjunct1, THEN mp, OF e4])
  from A [THEN conjunct2, THEN conjunct2, THEN mp, OF conjI [OF e4 ne]] obtain p1 p2 where
    c1: "changeLayout sampleRuntime sampleIds 5 ''1'' examplePage = Inr (p1, 5)"
    and c2: "panels p1 = [panels examplePage ! 0]"
    and c3: "changeLayout sampleRuntime sampleIds 5 ''4'' p1 = Inr (p2, 5 + 3)"
    and c4: "panels p2 =
                [panels examplePage ! 0,
                 \<lparr>panel_id = JStr (sampleIds 5), bg = JStr ''#ffffff'', elements = []\<rparr>,
                 \<lparr>panel_id = JStr (sampleIds (5 + 1)), bg = JStr ''#ffffff'', elements = []\<rparr>,
                 \<lparr>panel_id = JStr (sampleIds (5 + 2)), bg = JStr ''#ffffff'', elements = []\<rparr>]"
    by (elim exE conjE)
  from c3 have c3': "changeLayout sampleRuntime sampleIds 5 ''4'' p1 = Inr (p2, 8)" by simp
  from c4 have c4': "panels p2 =
        [\<lparr>panel_id = JStr ''u0'', bg = JStr ''#ffffff'',
           elements = [defaultText ''u4'' ''speech'']\<rparr>,
         \<lparr>panel_id = JStr ''u5'', bg = JStr ''#ffffff'', elements = []\<rparr>,
         \<lparr>panel_id = JStr ''u6'', bg = JStr ''#ffffff'', elements = []\<rparr>,
         \<lparr>panel_id = JStr ''u7'', bg = JStr ''#ffffff'', elements = []\<rparr>]"
    unfolding ids p0 .
  have third: "\<exists>p1 p2. changeLayout sampleRuntime sampleIds 5 ''1'' examplePage = Inr (p1, 5) \<and>
      panels p1 = [panels examplePage ! 0] \<and>
      changeLayout sampleRuntime sampleIds 5 ''4'' p1 = Inr (p2, 8) \<and>
      panels p2 =
        [\<lparr>panel_id = JStr ''u0'', bg = JStr ''#ffffff'',
           elements = [defaultText ''u4'' ''speech'']\<rparr>,
         \<lparr>panel_id = JStr ''u5'', bg = JStr ''#ffffff'', elements = []\<rparr>,
         \<lparr>panel_id = JStr ''u6'', bg = JStr ''#ffffff'', elements = []\<rparr>,
         \<lparr>panel_id = JStr ''u7'', bg = JStr ''#ffffff'', elements = []\<rparr>]"
    using c1 c2 c3' c4' by (intro exI [of _ p1] exI [of _ p2] conjI)
  show ?thesis
    by (intro conjI; (rule h2 n2 first n1 grown h4 e4 second ne third))
qed

text \<open>
  Claim C7. The persisted export counter goes up by exactly one when the export
  succeeds and stays as it is when rendering fails: if the stored text reads as the
  number \<open>n\<close>, a successful export stores the text of \<open>n + 1\<close> (a counter that was
  never stored counts as 0) and downloads the file; a failed export leaves the storage
  unchanged, downloads nothing and reports the failure.
\<close>

theorem C7_export_counter:
  "(localStorage ''comicsCount'' = Some s \<and> s \<noteq> [] \<and> stringToNumber rt s = Fin n \<longrightarrow>
      exportPNG rt True (Some dataUrl) now localStorage =
        (localStorage(''comicsCount'' \<mapsto> numberToString rt (Fin (n + 1))),
         Some (''comic-'' @ numberToString rt now @ ''.png'', dataUrl),
         Some ''Exported PNG and updated dashboard count.'')) \<and>
   (localStorage ''comicsCount'' = None \<and> stringToNumber rt ''0'' = Fin 0 \<longrightarrow>
      exportPNG rt True (Some dataUrl) now localStorage =
        (localStorage(''comicsCount'' \<mapsto> numberToString rt (Fin 1)),
         Some (''comic-'' @ numberToString rt now @ ''.png'', dataUrl),
         Some ''Exported PNG and updated dashboard count.'')) \<and>
   exportPNG rt True None now localStorage =
     (localStorage, None, Some ''Export failed. (CORS or memory). Try smaller images.'')"
  by (simp add: exportPNG_def)

theorem C7_export_counter_witness:
  "((Map.empty(''comicsCount'' \<mapsto> ''3'')) ''comicsCount'' = Some ''3'' \<and> ''3'' \<noteq> [] \<and>
    stringToNumber sampleRuntime ''3'' = Fin 3 \<and>
      exportPNG sampleRuntime True (Some ''data:image/png;base64,AAAA'') (Fin 1700000000000)
          (Map.empty(''comicsCount'' \<mapsto> ''3'')) =
        ((Map.empty(''comicsCount'' \<mapsto> ''3''))
           (''comicsCount'' \<mapsto> numberToString sampleRuntime (Fin (3 + 1))),
         Some (''comic-'' @ numberToString sampleRuntime (Fin 1700000000000) @ ''.png'',
               ''data:image/png;base64,AAAA''),
         Some ''Exported PNG and updated dashboard count.'')) \<and>
   ((Map.empty :: storage) ''comicsCount'' = None \<and> stringToNumber sampleRuntime ''0'' = Fin 0 \<and>
      exportPNG sampleRuntime True (Some ''data:image/png;base64,AAAA'') (Fin 1700000000000)
          Map.empty =
        (Map.empty(''comicsCount'' \<mapsto> numberToString sampleRuntime (Fin 1)),
         Some (''comic-'' @ numberToString sampleRuntime (Fin 1700000000000) @ ''.png'',
               ''data:image/png;base64,AAAA''),
         Some ''Exported PNG and updated dashboard count.'')) \<and>
   numberToString sampleRuntime (Fin (3 + 1)) = ''4'' \<and>
   numberToString sampleRuntime (Fin 1) = ''1''"
proof -
  have a: "(Map.empty(''comicsCount'' \<mapsto> ''3'')) ''comicsCount'' = Some ''3'' \<and> ''3'' \<noteq> [] \<and>
    stringToNumber sampleRuntime ''3'' = Fin 3"
    by (simp add: sampleRuntime_def readDecimal_3)
  have b: "(Map.empty :: storage) ''comicsCount'' = None \<and> stringToNumber sampleRuntime ''0'' = Fin 0"
    by (simp add: sampleRuntime_def readDecimal_3)
  have c: "numberToString sampleRuntime (Fin (3 + 1)) = ''4''"
     "numberToString sampleRuntime (Fin 1) = ''1''"
    by (simp_all add: sampleRuntime_def showNumber_def showNat.simps)
  show ?thesis
    using a b c
      C7_export_counter [of "Map.empty(''comicsCount'' \<mapsto> ''3'')" "''3''" sampleRuntime 3
          "''data:image/png;base64,AAAA''" "Fin 1700000000000"]
      C7_export_counter [of "Map.empty" "''3''" sampleRuntime 3
          "''data:image/png;base64,AAAA''" "Fin 1700000000000"]
    by blast
qed






text \<open>
  Claim C4. Every mutation is to keep the numeric fields within the documented
  ranges. The mutation operations do not clamp at all: \<open>mutateElement\<close> merges the
  patch as it is, and the keyboard and pointer handlers compute their patches without
  bounds (only the resize has a floor, of 20). Dragging the speech bubble of the
  example page, which is at \<open>x = 24\<close>, by 100 to the left commits \<open>x = -76\<close>.
\<close>

theorem C4_drag_leaves_range:
  "inRangePage examplePage \<and>
   move sampleRuntime 0 (snd (startDrag 0 300 300 (defaultText ''u4'' ''speech'') Move)) 200 300
       examplePage =
     Inr (mutateElement 0 (JStr ''u4'') [(''x'', num (- 76)), (''y'', num 24)] examplePage) \<and>
   \<not> inRangePage (mutateElement 0 (JStr ''u4'') [(''x'', num (- 76)), (''y'', num 24)] examplePage)"
proof -
  have a: "move sampleRuntime 0 (snd (startDrag 0 300 300 (defaultText ''u4'' ''speech'') Move)) 200 300
       examplePage =
     Inr (mutateElement 0 (JStr ''u4'') [(''x'', num (- 76)), (''y'', num 24)] examplePage)"
    by (simp add: move_def startDrag_def field_def defaultText_def bindE_def numPlus_def
        numMinus_def numSub_def rounded_def sampleRuntime_def roundSample_def)
  have b: "\<not> inRangePage (mutateElement 0 (JStr ''u4'') [(''x'', num (- 76)), (''y'', num 24)] examplePage)"
    by (simp add: mutateElement_def examplePage_def mapi_Cons mapi_Nil inRangePage_def
        defaultText_def field_def inRange_def fieldIn_def emptyPanel_def)
  show ?thesis using examplePage_inRange a b by simp
qed

text \<open>
  Claim C4, amended. The documented ranges hold for what the default constructors and
  the sanitizer make, and the mutations that do not write a ranged field preserve them:
  \<open>removeElement\<close>, \<open>setPanel\<close> with a background, \<open>addText\<close>, \<open>addImage\<close> when the
  natural size is unknown or at least 10 by 10, the layout effect, and every
  \<open>mutateElement\<close> whose patch leaves \<open>type\<close>, \<open>x\<close>, \<open>y\<close>, \<open>w\<close>, \<open>h\<close>,
  \<open>fontSize\<close>, \<open>radius\<close> and \<open>weight\<close> alone (the keys \<open>]\<close> and \<open>[\<close> among them).
  A patch of a ranged field, the arrow nudge and the pointer drag store their values
  unclamped.
\<close>

theorem C4_ranges_preserved:
  assumes "inRangePage p"
  shows "inRangePage (removeElement idx i p) \<and>
         inRangePage (setPanel idx (PatchBg c) p) \<and>
         (\<forall>p'. addText idx subtype u p = Inr p' \<longrightarrow> inRangePage p') \<and>
         (\<forall>p'. addImage rt idx url None u p = Inr p' \<longrightarrow> inRangePage p') \<and>
         (\<forall>nw nh p'. 10 \<le> nw \<and> 10 \<le> nh \<and> addImage rt idx url (Some (nw, nh)) u p = Inr p' \<longrightarrow>
            inRangePage p') \<and>
         (\<forall>p' k'. layoutEffect rt ids k p = Inr (p', k') \<longrightarrow> inRangePage p') \<and>
         (list_all (\<lambda>(key, v). key \<notin> set rangedFields) patch \<longrightarrow>
            inRangePage (mutateElement idx i patch p))"
proof (intro conjI allI impI)
  show "inRangePage (removeElement idx i p)"
    by (rule inRange_removeElement [OF assms])
next
  show "inRangePage (setPanel idx (PatchBg c) p)"
    by (rule inRange_setPanel_bg [OF assms])
next
  fix p' assume "addText idx subtype u p = Inr p'"
  then show "inRangePage p'" by (rule inRange_addText [OF assms])
next
  fix p' assume "addImage rt idx url None u p = Inr p'"
  then show "inRangePage p'" by (rule inRange_addImage_None [OF assms])
next
  fix nw nh p'
  assume "10 \<le> nw \<and> 10 \<le> nh \<and> addImage rt idx url (Some (nw, nh)) u p = Inr p'"
  then show "inRangePage p'" using inRange_addImage_Some [OF assms] by blast
next
  fix p' k' assume "layoutEffect rt ids k p = Inr (p', k')"
  then show "inRangePage p'" by (rule inRange_layoutEffect [OF assms])
next
  assume "list_all (\<lambda>(key, v). key \<notin> set rangedFields) patch"
  then show "inRangePage (mutateElement idx i patch p)"
    by (rule inRange_mutateElement [OF assms])
qed

theorem C4_ranges_preserved_witness:
  "inRangePage examplePage \<and>
   inRangePage (removeElement 0 (JStr ''u4'') examplePage) \<and>
   inRangePage (setPanel 0 (PatchBg (JStr ''#000000'')) examplePage) \<and>
   (addText 0 ''sfx'' ''u5'' examplePage =
      Inr (setPanel 0 (PatchElements [defaultText ''u4'' ''speech'', defaultText ''u5'' ''sfx'']) examplePage) \<and>
    inRangePage (setPanel 0 (PatchElements [defaultText ''u4'' ''speech'', defaultText ''u5'' ''sfx'']) examplePage)) \<and>
   (addImage sampleRuntime 0 ''blob:1'' None ''u5'' examplePage =
      Inr (setPanel 0 (PatchElements [defaultText ''u4'' ''speech'', [(''id'', JStr ''u5''), (''type'', JStr ''image''), (''src'', JStr ''blob:1''), (''x'', num 24), (''y'', num 24), (''w'', num 300), (''h'', num 220), (''z'', num 0), (''rotate'', num 0)]]) examplePage) \<and>
    inRangePage (setPanel 0 (PatchElements [defaultText ''u4'' ''speech'', [(''id'', JStr ''u5''), (''type'', JStr ''image''), (''src'', JStr ''blob:1''), (''x'', num 24), (''y'', num 24), (''w'', num 300), (''h'', num 220), (''z'', num 0), (''rotate'', num 0)]]) examplePage)) \<and>
   ((10 :: nat) \<le> 640 \<and> (10 :: nat) \<le> 480 \<and>
    addImage sampleRuntime 0 ''blob:1'' (Some (640, 480)) ''u5'' examplePage =
      Inr (setPanel 0 (PatchElements [defaultText ''u4'' ''speech'', [(''id'', JStr ''u5''), (''type'', JStr ''image''), (''src'', JStr ''blob:1''), (''x'', num 24), (''y'', num 24), (''w'', num 300), (''h'', num 220), (''z'', num 0), (''rotate'', num 0)]]) examplePage) \<and>
    inRangePage (setPanel 0 (PatchElements [defaultText ''u4'' ''speech'', [(''id'', JStr ''u5''), (''type'', JStr ''image''), (''src'', JStr ''blob:1''), (''x'', num 24), (''y'', num 24), (''w'', num 300), (''h'', num 220), (''z'', num 0), (''rotate'', num 0)]]) examplePage)) \<and>
   (layoutEffect sampleRuntime sampleIds 5 examplePage = Inr (examplePage, 5) \<and>
    inRangePage examplePage) \<and>
   (list_all (\<lambda>(key, v). key \<notin> set rangedFields) [(''z'', num 3)] \<and>
    inRangePage (mutateElement 0 (JStr ''u4'') [(''z'', num 3)] examplePage))"
proof -
  note h = examplePage_inRange
  note T = C4_ranges_preserved [OF h, where idx = 0 and i = "JStr ''u4''" and c = "JStr ''#000000''"
      and subtype = "''sfx''" and u = "''u5''" and rt = sampleRuntime and url = "''blob:1''"
      and ids = sampleIds and k = 5 and patch = "[(''z'', num 3)]"]
  note T1 = T [THEN conjunct1]
  note T2 = T [THEN conjunct2, THEN conjunct1]
  note T3 = T [THEN conjunct2, THEN conjunct2, THEN conjunct1, rule_format]
  note T4 = T [THEN conjunct2, THEN conjunct2, THEN conjunct2, THEN conjunct1, rule_format]
  note T5 = T [THEN conjunct2, THEN conjunct2, THEN conjunct2, THEN conjunct2, THEN conjunct1,
      rule_format]
  note T6 = T [THEN conjunct2, THEN conjunct2, THEN conjunct2, THEN conjunct2, THEN conjunct2,
      THEN conjunct1, rule_format]
  note T7 = T [THEN conjunct2, THEN conjunct2, THEN conjunct2, THEN conjunct2, THEN conjunct2,
      THEN conjunct2, rule_format]
  have a3: "addText 0 ''sfx'' ''u5'' examplePage =
      Inr (setPanel 0 (PatchElements [defaultText ''u4'' ''speech'', defaultText ''u5'' ''sfx'']) examplePage)"
    by (simp add: addText_def examplePage_panel0)
  have a4: "addImage sampleRuntime 0 ''blob:1'' None ''u5'' examplePage =
      Inr (setPanel 0 (PatchElements [defaultText ''u4'' ''speech'', [(''id'', JStr ''u5''), (''type'', JStr ''image''), (''src'', JStr ''blob:1''), (''x'', num 24), (''y'', num 24), (''w'', num 300), (''h'', num 220), (''z'', num 0), (''rotate'', num 0)]]) examplePage)"
    by (simp add: addImage_def examplePage_panel0 defaultImage_def bindE_def naturalOr_def
        jsOr_def mathMin_Fin)
  have n1: "(10 :: nat) \<le> 640" and n2: "(10 :: nat) \<le> 480" by simp_all
  have a5: "addImage sampleRuntime 0 ''blob:1'' (Some (640, 480)) ''u5'' examplePage =
      Inr (setPanel 0 (PatchElements [defaultText ''u4'' ''speech'', [(''id'', JStr ''u5''), (''type'', JStr ''image''), (''src'', JStr ''blob:1''), (''x'', num 24), (''y'', num 24), (''w'', num 300), (''h'', num 220), (''z'', num 0), (''rotate'', num 0)]]) examplePage)"
    by (simp add: addImage_def examplePage_panel0 defaultImage_def bindE_def naturalOr_def
        jsOr_def mathMin_Fin field_def)
  have a6: "layoutEffect sampleRuntime sampleIds 5 examplePage = Inr (examplePage, 5)"
    by (simp add: layoutEffect_def bindE_def LAYOUTS_def padPanels_eq examplePage_def)
  have a7: "list_all (\<lambda>(key, v). key \<notin> set rangedFields) [(''z'', num 3)]"
    by (simp add: rangedFields_def)
  note R3 = T3 [OF a3]
  note R4 = T4 [OF a4]
  note R5 = T5 [OF conjI [OF n1 conjI [OF n2 a5]]]
  note R6 = T6 [OF a6]
  note R7 = T7 [OF a7]
  show ?thesis
    by (intro conjI; (rule h T1 T2 a3 a4 n1 n2 a5 a6 a7 R3 R4 R5 R6 R7))
qed

end
